theory Spec2Isabelle
  imports
    Complex_Main
    "HOL-Library.Char_ord"
    "HOL-Library.List_Lexorder"
    "HOL-Library.Product_Lexorder"
begin

section \<open>Deploy records: the data model of \<^verbatim>\<open>src/lib/types.ts\<close>\<close>

text \<open>
  A string is a \<^typ>\<open>string\<close>: the list of the bytes of its UTF-8 encoding. With \<open>Char_ord\<close> and
  \<open>List_Lexorder\<close> the order \<open><\<close> on strings is the lexicographic order by byte, which is the
  order by code point. JavaScript's \<open><\<close> on strings and the default \<open>Array.prototype.sort\<close>
  compare UTF-16 code units; the two orders agree except between a character beyond U+FFFF
  and one in U+E000 to U+FFFF.

  A JSON object as it comes out of \<open>JSON.parse\<close> or of the request body is a
  \<open>Partial<DeployRecord>\<close>: every property may be absent (\<open>undefined\<close>), which is \<open>None\<close>.
\<close>

record json_object =
  j_id :: "string option"
  j_title :: "string option"
  j_projectName :: "string option"
  j_operator :: "string option"
  j_environment :: "string option"
  j_branch :: "string option"
  j_commit :: "string option"
  j_note :: "string option"
  j_deployedAt :: "string option"
  j_status :: "string option"

text \<open>\<open>CreateDeployPayload\<close> and \<open>DeployRecord\<close>. The status is a string at run time: the
  union type \<open>DeployStatus\<close> is erased by the compiler, its four inhabitants are the set
  \<open>DeployStatus\<close> below.\<close>

record CreateDeployPayload =
  p_title :: string
  p_projectName :: string
  p_operator :: string
  p_environment :: string
  p_branch :: string
  p_commit :: string
  p_note :: "string option"
  p_deployedAt :: "string option"
  p_status :: string

record DeployRecord =
  r_id :: string
  r_title :: string
  r_projectName :: string
  r_operator :: string
  r_environment :: string
  r_branch :: string
  r_commit :: string
  r_note :: "string option"
  r_deployedAt :: string
  r_status :: string

definition DeployStatus :: "string set" where
  "DeployStatus = {''success'', ''failed'', ''running'', ''canceled''}"

text \<open>JavaScript truthiness of an optional string: \<open>undefined\<close> and \<open>""\<close> are falsy.\<close>

fun truthy :: "string option \<Rightarrow> bool" where
  "truthy None = False"
| "truthy (Some s) = (s \<noteq> [])"

text \<open>The JSON value of a record: what \<open>JSON.parse (JSON.stringify record)\<close> yields. A property
  whose value is \<open>undefined\<close> (the note) is dropped by \<open>JSON.stringify\<close>.\<close>

definition json_of :: "DeployRecord \<Rightarrow> json_object" where
  "json_of r =
     \<lparr>j_id = Some (r_id r), j_title = Some (r_title r), j_projectName = Some (r_projectName r),
      j_operator = Some (r_operator r), j_environment = Some (r_environment r),
      j_branch = Some (r_branch r), j_commit = Some (r_commit r), j_note = r_note r,
      j_deployedAt = Some (r_deployedAt r), j_status = Some (r_status r)\<rparr>"

text \<open>
  A value handed back by the Redis client (\<open>unknown\<close> in the source): \<open>null\<close>, a string, an
  object, or anything else (number, boolean). A string is represented by what \<open>JSON.parse\<close>
  does on it: it throws (\<open>None\<close>) or yields a JSON value, which is an object or not.
\<close>

datatype json = JObject json_object | JOther

datatype raw = RawNull | RawString "json option" | RawObject json_object | RawOther

fun coerceRecord :: "raw \<Rightarrow> json_object option" where
  "coerceRecord RawNull = None"
| "coerceRecord (RawString None) = None"
| "coerceRecord (RawString (Some (JObject parsed))) =
     (if truthy (j_id parsed) \<and> truthy (j_deployedAt parsed) then Some parsed else None)"
| "coerceRecord (RawString (Some JOther)) = None"
| "coerceRecord (RawObject obj) =
     (if truthy (j_id obj) \<and> truthy (j_deployedAt obj) then Some obj else None)"
| "coerceRecord RawOther = None"

text \<open>\<open>JSON.stringify record\<close> as the client returns it on a later read: the Upstash client
  parses stored JSON text back into an object.\<close>

definition JSON_stringify :: "DeployRecord \<Rightarrow> raw" where
  "JSON_stringify r = RawObject (json_of r)"

section \<open>The JavaScript environment: clock and \<open>Date\<close>\<close>

text \<open>
  \<open>Date_now\<close> is \<open>Date.now()\<close> in milliseconds, \<open>Date_parse s\<close> is \<open>new Date(s).getTime()\<close> with
  \<open>NaN\<close> as \<open>None\<close>, \<open>toISOString t\<close> is \<open>new Date(t).toISOString()\<close>. They are parameters of
  every function that reads the clock or a date. \<open>StringToNumber s\<close> is \<open>Number(s)\<close> on a
  string. A JavaScript number is \<open>NaN\<close>, an infinity, or the rational a finite double stands
  for; the code only compares, truncates and selects numbers, which is exact on doubles.
\<close>

datatype jsnum = NaN | NegInf | Fin rat | PosInf

text \<open>
  The values that the project listing handles: \<open>undefined\<close>, \<open>null\<close>, booleans, numbers,
  strings, and objects or arrays. An object is identified by the reply text it was parsed
  from: two objects parsed from different texts are different objects for a \<open>Set\<close>.
\<close>

datatype jsval = JUndefined | JNull | JBool bool | JNum jsnum | JStr string | JObj string

text \<open>
  The Redis client is created with its default options (\<^verbatim>\<open>src/lib/redis.ts\<close>, line 6), so it
  deserialises every string of a reply: \<open>deserialize s\<close> is the value of \<open>JSON.parse(s)\<close>, or the
  string \<open>s\<close> itself where the client keeps it (the text is not JSON). \<open>Number_toString\<close> and
  \<open>Object_toString\<close> are \<open>String(v)\<close> on a number and on the object parsed from a text.
\<close>

record js_env =
  Date_now :: int
  Date_parse :: "string \<Rightarrow> int option"
  toISOString :: "int \<Rightarrow> string"
  StringToNumber :: "string \<Rightarrow> jsnum"
  deserialize :: "string \<Rightarrow> jsval"
  Number_toString :: "jsnum \<Rightarrow> string"
  Object_toString :: "string \<Rightarrow> string"

definition THIRTY_DAYS_MS :: int where
  "THIRTY_DAYS_MS = 30 * 24 * 60 * 60 * 1000"

definition MAX_ITEMS :: nat where
  "MAX_ITEMS = 200"

definition DEPLOY_RECORD_PREFIX :: string where
  "DEPLOY_RECORD_PREFIX = ''deploy_record:''"

text \<open>
  \<open>String.prototype.trim\<close> removes white space and line terminators from both ends: the
  characters U+0009 to U+000D, U+0020, U+00A0, U+1680, U+2000 to U+200A, U+2028, U+2029,
  U+202F, U+205F, U+3000 and U+FEFF, listed here by their UTF-8 encodings of one, two or
  three bytes.
\<close>

definition white_space :: "string list" where
  "white_space =
     [[CHR 0x09], [CHR 0x0A], [CHR 0x0B], [CHR 0x0C], [CHR 0x0D], [CHR 0x20],
      [CHR 0xC2, CHR 0xA0],
      [CHR 0xE1, CHR 0x9A, CHR 0x80],
      [CHR 0xE2, CHR 0x80, CHR 0x80], [CHR 0xE2, CHR 0x80, CHR 0x81],
      [CHR 0xE2, CHR 0x80, CHR 0x82], [CHR 0xE2, CHR 0x80, CHR 0x83],
      [CHR 0xE2, CHR 0x80, CHR 0x84], [CHR 0xE2, CHR 0x80, CHR 0x85],
      [CHR 0xE2, CHR 0x80, CHR 0x86], [CHR 0xE2, CHR 0x80, CHR 0x87],
      [CHR 0xE2, CHR 0x80, CHR 0x88], [CHR 0xE2, CHR 0x80, CHR 0x89],
      [CHR 0xE2, CHR 0x80, CHR 0x8A],
      [CHR 0xE2, CHR 0x80, CHR 0xA8], [CHR 0xE2, CHR 0x80, CHR 0xA9],
      [CHR 0xE2, CHR 0x80, CHR 0xAF],
      [CHR 0xE2, CHR 0x81, CHR 0x9F],
      [CHR 0xE3, CHR 0x80, CHR 0x80],
      [CHR 0xEF, CHR 0xBB, CHR 0xBF]]"

definition is_white_space :: "string \<Rightarrow> bool" where
  "is_white_space w = (w \<in> set white_space)"

text \<open>Removing from the front every character that \<open>W\<close> accepts, a character being one,
  two or three bytes.\<close>

fun strip_leading :: "(string \<Rightarrow> bool) \<Rightarrow> string \<Rightarrow> string" where
  "strip_leading W (a # b # c # s) =
     (if W [a] then strip_leading W (b # c # s)
      else if W [a, b] then strip_leading W (c # s)
      else if W [a, b, c] then strip_leading W s
      else a # b # c # s)"
| "strip_leading W [a, b] =
     (if W [a] then strip_leading W [b] else if W [a, b] then [] else [a, b])"
| "strip_leading W [a] = (if W [a] then [] else [a])"
| "strip_leading W [] = []"

text \<open>The end of the string is the front of its reversal, where the bytes of a character
  come in reverse.\<close>

definition trim :: "string \<Rightarrow> string" where
  "trim s =
     rev (strip_leading (\<lambda>w. is_white_space (rev w)) (rev (strip_leading is_white_space s)))"

definition resolveDeployedAt :: "js_env \<Rightarrow> string option \<Rightarrow> string" where
  "resolveDeployedAt env input =
     (let raw = trim (case input of None \<Rightarrow> [] | Some s \<Rightarrow> s) in
      if raw = [] then toISOString env (Date_now env)
      else (case Date_parse env raw of
              None \<Rightarrow> toISOString env (Date_now env)
            | Some dt \<Rightarrow> toISOString env dt))"

section \<open>The Redis client\<close>

text \<open>
  The client is a database together with the operations that currently fail (a rejected
  promise: network error, quota, ...). The database holds the four kinds of key the code
  uses: string keys \<open>deploy_record:<id>\<close> with their expiry instant, the sorted set
  \<open>deploy_records_z\<close> (member, score), the list \<open>deploy_records\<close> and the set
  \<open>deploy_projects\<close> (in some enumeration order). The variable \<open>redis\<close> of the source is a
  \<open>redis_client option\<close>: \<open>None\<close> when the credentials are not configured. A read that
  succeeds returns an array, so the guards \<open>ids ?? []\<close> and \<open>Array.isArray(members)\<close> of the
  source never take their second branch and are left out.
\<close>

datatype op = SET | ZADD | ZREMRANGEBYSCORE | LPUSH | LTRIM | SADD | ZRANGE | MGET | LRANGE | SMEMBERS

datatype error = NotConfigured | RedisError op | InvalidScore | RangeError | SyntaxError | TypeError

record redis_client =
  string_keys :: "string \<Rightarrow> (raw \<times> int) option"
  deploy_records_z :: "(string \<times> int) list"
  deploy_records :: "raw list"
  deploy_projects :: "string list"
  faulty :: "op \<Rightarrow> bool"

definition redis_set :: "redis_client \<Rightarrow> int \<Rightarrow> string \<Rightarrow> raw \<Rightarrow> int \<Rightarrow> error + redis_client" where
  "redis_set c now key v ex =
     (if faulty c SET then Inl (RedisError SET)
      else Inr (c\<lparr>string_keys := (string_keys c)(key \<mapsto> (v, now + ex * 1000))\<rparr>))"

fun zadd_entry :: "string \<Rightarrow> int \<Rightarrow> (string \<times> int) list \<Rightarrow> (string \<times> int) list" where
  "zadd_entry m s [] = [(m, s)]"
| "zadd_entry m s ((m', s') # z) = (if m' = m then (m, s) # z else (m', s') # zadd_entry m s z)"

text \<open>A score of \<open>NaN\<close> (\<open>None\<close>) is refused by the server.\<close>

definition redis_zadd :: "redis_client \<Rightarrow> int option \<Rightarrow> string \<Rightarrow> error + redis_client" where
  "redis_zadd c score member =
     (if faulty c ZADD then Inl (RedisError ZADD)
      else (case score of
              None \<Rightarrow> Inl InvalidScore
            | Some s \<Rightarrow> Inr (c\<lparr>deploy_records_z := zadd_entry member s (deploy_records_z c)\<rparr>)))"

definition redis_zremrangebyscore :: "redis_client \<Rightarrow> int \<Rightarrow> int option \<Rightarrow> error + redis_client" where
  "redis_zremrangebyscore c lo hi =
     (if faulty c ZREMRANGEBYSCORE then Inl (RedisError ZREMRANGEBYSCORE)
      else (case hi of
              None \<Rightarrow> Inl InvalidScore
            | Some h \<Rightarrow>
                Inr (c\<lparr>deploy_records_z :=
                         filter (\<lambda>(m, s). \<not> (lo \<le> s \<and> s \<le> h)) (deploy_records_z c)\<rparr>)))"

definition redis_lpush :: "redis_client \<Rightarrow> raw \<Rightarrow> error + redis_client" where
  "redis_lpush c v =
     (if faulty c LPUSH then Inl (RedisError LPUSH)
      else Inr (c\<lparr>deploy_records := v # deploy_records c\<rparr>))"

definition redis_ltrim :: "redis_client \<Rightarrow> nat \<Rightarrow> nat \<Rightarrow> error + redis_client" where
  "redis_ltrim c start stop =
     (if faulty c LTRIM then Inl (RedisError LTRIM)
      else Inr (c\<lparr>deploy_records := take (stop + 1 - start) (drop start (deploy_records c))\<rparr>))"

definition redis_sadd :: "redis_client \<Rightarrow> string \<Rightarrow> error + redis_client" where
  "redis_sadd c member =
     (if faulty c SADD then Inl (RedisError SADD)
      else Inr (c\<lparr>deploy_projects :=
                    (if member \<in> set (deploy_projects c) then deploy_projects c
                     else deploy_projects c @ [member])\<rparr>))"

text \<open>\<open>zrange key start stop {rev: true}\<close>: highest score first, ties by member, descending.\<close>

definition redis_zrange_rev :: "redis_client \<Rightarrow> nat \<Rightarrow> nat \<Rightarrow> error + string list" where
  "redis_zrange_rev c start stop =
     (if faulty c ZRANGE then Inl (RedisError ZRANGE)
      else Inr (take (stop + 1 - start) (drop start
             (map fst (rev (sort_key (\<lambda>(m, s). (s, m)) (deploy_records_z c)))))))"

text \<open>A key that is absent or past its expiry reads as \<open>null\<close>.\<close>

definition redis_mget :: "redis_client \<Rightarrow> int \<Rightarrow> string list \<Rightarrow> error + raw list" where
  "redis_mget c now keys =
     (if faulty c MGET then Inl (RedisError MGET)
      else Inr (map (\<lambda>k. case string_keys c k of
                            None \<Rightarrow> RawNull
                          | Some (v, expiry) \<Rightarrow> if now < expiry then v else RawNull) keys))"

definition redis_lrange :: "redis_client \<Rightarrow> nat \<Rightarrow> nat \<Rightarrow> error + raw list" where
  "redis_lrange c start stop =
     (if faulty c LRANGE then Inl (RedisError LRANGE)
      else Inr (take (stop + 1 - start) (drop start (deploy_records c))))"



section \<open>\<^verbatim>\<open>src/lib/db.ts\<close>: \<open>addDeployRecord\<close>\<close>

text \<open>
  \<open>randomUUID()\<close> is the parameter \<open>uuid\<close>. The result pairs what the promise settles to
  (\<open>Inl\<close>: rejected) with the client after the writes that did happen: a failing operation
  leaves the earlier writes in place, as the source has no rollback.
\<close>

definition addDeployRecord ::
  "js_env \<Rightarrow> string \<Rightarrow> CreateDeployPayload \<Rightarrow> redis_client option
     \<Rightarrow> (error + DeployRecord) \<times> redis_client option" where
  "addDeployRecord env uuid payload redis =
     (case redis of
        None \<Rightarrow> (Inl NotConfigured, None)
      | Some c0 \<Rightarrow>
          (let record =
                 \<lparr>r_id = uuid, r_title = p_title payload, r_projectName = p_projectName payload,
                  r_operator = p_operator payload, r_environment = p_environment payload,
                  r_branch = p_branch payload, r_commit = p_commit payload,
                  r_note = p_note payload,
                  r_deployedAt = resolveDeployedAt env (p_deployedAt payload),
                  r_status = p_status payload\<rparr>;
               key = DEPLOY_RECORD_PREFIX @ r_id record;
               score = Date_parse env (r_deployedAt record)
           in case redis_set c0 (Date_now env) key (JSON_stringify record) (THIRTY_DAYS_MS div 1000) of
                Inl e \<Rightarrow> (Inl e, Some c0)
              | Inr c1 \<Rightarrow>
             (case redis_zadd c1 score (r_id record) of
                Inl e \<Rightarrow> (Inl e, Some c1)
              | Inr c2 \<Rightarrow>
             (case redis_zremrangebyscore c2 0 (map_option (\<lambda>s. s - THIRTY_DAYS_MS - 1) score) of
                Inl e \<Rightarrow> (Inl e, Some c2)
              | Inr c3 \<Rightarrow>
             (case redis_lpush c3 (JSON_stringify record) of
                Inl e \<Rightarrow> (Inl e, Some c3)
              | Inr c4 \<Rightarrow>
             (case redis_ltrim c4 0 (MAX_ITEMS - 1) of
                Inl e \<Rightarrow> (Inl e, Some c4)
              | Inr c5 \<Rightarrow>
             (case redis_sadd c5 (r_projectName record) of
                Inl e \<Rightarrow> (Inl e, Some c5)
              | Inr c6 \<Rightarrow> (Inr record, Some c6))))))))"

section \<open>\<^verbatim>\<open>src/lib/db.ts\<close>: \<open>getLatestDeployRecords\<close>\<close>

text \<open>A JavaScript \<open>Map\<close>, as the list of its entries in insertion order: \<open>set\<close> on a key
  already present replaces the value in place, a new key goes to the end.\<close>

fun Map_set :: "('k \<times> 'v) list \<Rightarrow> 'k \<Rightarrow> 'v \<Rightarrow> ('k \<times> 'v) list" where
  "Map_set [] k v = [(k, v)]"
| "Map_set ((k', v') # m) k v = (if k' = k then (k, v) # m else (k', v') # Map_set m k v)"

text \<open>\<open>a < b\<close> on two property values: with \<open>undefined\<close> on either side it is \<open>false\<close>.\<close>

fun js_lt :: "string option \<Rightarrow> string option \<Rightarrow> bool" where
  "js_lt (Some a) (Some b) = (a < b)"
| "js_lt _ _ = False"

text \<open>The comparator \<open>(a, b) => (a.deployedAt < b.deployedAt ? 1 : -1)\<close>.\<close>

definition newest_first :: "json_object \<Rightarrow> json_object \<Rightarrow> int" where
  "newest_first a b = (if js_lt (j_deployedAt a) (j_deployedAt b) then 1 else - 1)"

text \<open>
  \<open>Array.prototype.sort\<close> with a comparator, as an insertion sort: the elements are taken
  from left to right, and each goes in front of the first element of the sorted part that it
  does not compare greater than, which is the place V8's binary insertion finds. The
  comparator above never answers \<open>0\<close>, so of two records with equal \<open>deployedAt\<close> the one later
  in the array comes out first; the language leaves that order to the engine. Between records
  with different \<open>deployedAt\<close> every engine produces the order computed here.
\<close>

fun insert_by :: "('a \<Rightarrow> 'a \<Rightarrow> int) \<Rightarrow> 'a \<Rightarrow> 'a list \<Rightarrow> 'a list" where
  "insert_by cmp x [] = [x]"
| "insert_by cmp x (y # ys) = (if cmp x y > 0 then y # insert_by cmp x ys else x # y # ys)"

definition Array_sort :: "('a \<Rightarrow> 'a \<Rightarrow> int) \<Rightarrow> 'a list \<Rightarrow> 'a list" where
  "Array_sort cmp xs = foldl (\<lambda>sorted pivot. insert_by cmp pivot sorted) [] xs"

text \<open>\<open>xs.slice(0, fin)\<close>: \<open>fin\<close> is truncated to an integer, a negative one counts from
  the end of the array.\<close>

fun ToIntegerOrInfinity :: "jsnum \<Rightarrow> jsnum" where
  "ToIntegerOrInfinity NaN = Fin 0"
| "ToIntegerOrInfinity (Fin q) = Fin (of_int (if q < 0 then - \<lfloor>- q\<rfloor> else \<lfloor>q\<rfloor>))"
| "ToIntegerOrInfinity NegInf = NegInf"
| "ToIntegerOrInfinity PosInf = PosInf"

definition Array_slice0 :: "'a list \<Rightarrow> jsnum \<Rightarrow> 'a list" where
  "Array_slice0 xs fin =
     (case ToIntegerOrInfinity fin of
        NaN \<Rightarrow> []
      | NegInf \<Rightarrow> []
      | PosInf \<Rightarrow> xs
      | Fin q \<Rightarrow> (if q < 0 then take (nat (int (length xs) + \<lfloor>q\<rfloor>)) xs else take (nat \<lfloor>q\<rfloor>) xs))"

text \<open>Lines 76 to 82: the two sources, each run through \<open>coerceRecord\<close> and
  \<open>filter(Boolean)\<close>. \<open>Inl\<close> is an exception thrown inside the \<open>try\<close> block.\<close>

definition readSources :: "js_env \<Rightarrow> redis_client \<Rightarrow> error + (json_object list \<times> json_object list)" where
  "readSources env c =
     (case redis_zrange_rev c 0 (MAX_ITEMS - 1) of
        Inl e \<Rightarrow> Inl e
      | Inr ids \<Rightarrow>
          (let zsetKeys = map (\<lambda>i. DEPLOY_RECORD_PREFIX @ i) ids in
           case (if length zsetKeys > 0 then redis_mget c (Date_now env) zsetKeys else Inr []) of
             Inl e \<Rightarrow> Inl e
           | Inr zsetValues \<Rightarrow>
               (let fromZset = List.map_filter coerceRecord zsetValues in
                case redis_lrange c 0 (MAX_ITEMS - 1) of
                  Inl e \<Rightarrow> Inl e
                | Inr listItems \<Rightarrow> Inr (fromZset, List.map_filter coerceRecord listItems))))"

text \<open>Lines 84 to 86 and \<open>Array.from(byId.values())\<close>.\<close>

definition mergeById :: "json_object list \<Rightarrow> json_object list \<Rightarrow> json_object list" where
  "mergeById fromZset fromList =
     (let byId = foldl (\<lambda>m r. Map_set m (j_id r) r) [] fromList;
          byId = foldl (\<lambda>m r. Map_set m (j_id r) r) byId fromZset
      in map snd byId)"

text \<open>\<open>new Date(r.deployedAt).getTime() >= min\<close> (the source's \<open>min\<close> is \<open>min_ms\<close> here); a comparison with \<open>NaN\<close> is \<open>false\<close>.\<close>

definition in_window :: "js_env \<Rightarrow> int \<Rightarrow> json_object \<Rightarrow> bool" where
  "in_window env min_ms r =
     (case j_deployedAt r of
        None \<Rightarrow> False
      | Some s \<Rightarrow> (case Date_parse env s of None \<Rightarrow> False | Some t \<Rightarrow> t \<ge> min_ms))"

text \<open>Lines 87 to 89: the retention filter and the project filter.\<close>

definition retained :: "js_env \<Rightarrow> string list option \<Rightarrow> json_object list \<Rightarrow> json_object list" where
  "retained env projectNames merged =
     (let min_ms = Date_now env - THIRTY_DAYS_MS;
          list = filter (in_window env min_ms) merged;
          normalized = (case projectNames of
                          None \<Rightarrow> None
                        | Some names \<Rightarrow> if length names > 0 then Some (set names) else None)
      in case normalized of
           None \<Rightarrow> list
         | Some names \<Rightarrow>
             filter (\<lambda>x. case j_projectName x of None \<Rightarrow> False | Some p \<Rightarrow> p \<in> names) list)"

text \<open>The \<open>try\<close> block: \<open>Inl\<close> when it throws, \<open>Inr (Some result)\<close> when it returns,
  \<open>Inr None\<close> when control falls out of it.\<close>

definition getLatest_try ::
  "js_env \<Rightarrow> redis_client \<Rightarrow> jsnum \<Rightarrow> string list option \<Rightarrow> error + json_object list option" where
  "getLatest_try env c limit projectNames =
     (case readSources env c of
        Inl e \<Rightarrow> Inl e
      | Inr (fromZset, fromList) \<Rightarrow>
          (let list = Array_sort newest_first (retained env projectNames (mergeById fromZset fromList))
           in if length list > 0 then Inr (Some (Array_slice0 list limit)) else Inr None))"

definition getLatestDeployRecords ::
  "js_env \<Rightarrow> redis_client option \<Rightarrow> jsnum \<Rightarrow> string list option \<Rightarrow> error + json_object list" where
  "getLatestDeployRecords env redis limit projectNames =
     (case redis of
        None \<Rightarrow> Inl NotConfigured
      | Some c \<Rightarrow>
          (case getLatest_try env c limit projectNames of
             Inl e \<Rightarrow> Inr []
           | Inr (Some result) \<Rightarrow> Inr result
           | Inr None \<Rightarrow> Inr []))"

section \<open>\<^verbatim>\<open>src/lib/db.ts\<close>: \<open>getAllProjects\<close>\<close>







section \<open>The route \<^verbatim>\<open>/api/deploy\<close>: \<open>GET\<close> and \<open>POST\<close>\<close>

fun num_truthy :: "jsnum \<Rightarrow> bool" where
  "num_truthy NaN = False"
| "num_truthy (Fin q) = (q \<noteq> 0)"
| "num_truthy NegInf = True"
| "num_truthy PosInf = True"

fun Math_min :: "jsnum \<Rightarrow> jsnum \<Rightarrow> jsnum" where
  "Math_min NaN y = NaN"
| "Math_min x NaN = NaN"
| "Math_min NegInf y = NegInf"
| "Math_min x NegInf = NegInf"
| "Math_min PosInf y = y"
| "Math_min x PosInf = x"
| "Math_min (Fin a) (Fin b) = Fin (min a b)"

fun Math_max :: "jsnum \<Rightarrow> jsnum \<Rightarrow> jsnum" where
  "Math_max NaN y = NaN"
| "Math_max x NaN = NaN"
| "Math_max PosInf y = PosInf"
| "Math_max x PosInf = PosInf"
| "Math_max NegInf y = y"
| "Math_max x NegInf = x"
| "Math_max (Fin a) (Fin b) = Fin (max a b)"

text \<open>\<open>x <= y\<close> on numbers; every comparison with \<open>NaN\<close> is \<open>false\<close>.\<close>

fun jsnum_le :: "jsnum \<Rightarrow> jsnum \<Rightarrow> bool" where
  "jsnum_le NaN y = False"
| "jsnum_le x NaN = False"
| "jsnum_le NegInf y = True"
| "jsnum_le x PosInf = True"
| "jsnum_le PosInf y = False"
| "jsnum_le x NegInf = False"
| "jsnum_le (Fin a) (Fin b) = (a \<le> b)"

text \<open>The query string: \<open>searchParams.get("limit")\<close>, \<open>searchParams.getAll("projectName")\<close>
  and \<open>searchParams.get("projects")\<close>.\<close>

record query =
  q_limit :: "string option"
  q_projectName :: "string list"
  q_projects :: "string option"

text \<open>\<open>Math.max(1, Math.min(50, Number(searchParams.get("limit")) || 20))\<close>, where
  \<open>limit_number\<close> is \<open>Number(searchParams.get("limit"))\<close>; \<open>Number(null)\<close> is \<open>0\<close>.\<close>

definition limit_number :: "js_env \<Rightarrow> query \<Rightarrow> jsnum" where
  "limit_number env q = (case q_limit q of None \<Rightarrow> Fin 0 | Some s \<Rightarrow> StringToNumber env s)"

definition limit_of :: "js_env \<Rightarrow> query \<Rightarrow> jsnum" where
  "limit_of env q =
     (let n = limit_number env q
      in Math_max (Fin 1) (Math_min (Fin 50) (if num_truthy n then n else Fin 20)))"

text \<open>The limit as the specification words it: the value of the parameter clamped to
  \<open>[1, 50]\<close>, and 20 when the parameter is absent.\<close>

definition clamp_1_50 :: "jsnum \<Rightarrow> jsnum" where
  "clamp_1_50 n = (if jsnum_le n (Fin 1) then Fin 1 else if jsnum_le (Fin 50) n then Fin 50 else n)"

definition spec_limit :: "js_env \<Rightarrow> query \<Rightarrow> jsnum" where
  "spec_limit env q =
     (case q_limit q of None \<Rightarrow> Fin 20 | Some s \<Rightarrow> clamp_1_50 (StringToNumber env s))"

fun split_on :: "char \<Rightarrow> string \<Rightarrow> string list" where
  "split_on sep [] = [[]]"
| "split_on sep (c # cs) =
     (if c = sep then [] # split_on sep cs
      else (case split_on sep cs of [] \<Rightarrow> [[c]] | w # ws \<Rightarrow> (c # w) # ws))"

definition projects_of :: "query \<Rightarrow> string list option" where
  "projects_of q =
     (if length (q_projectName q) > 0 then Some (q_projectName q)
      else if truthy (q_projects q)
      then Some (filter (\<lambda>s. s \<noteq> [])
                   (map trim (split_on CHR '','' (case q_projects q of None \<Rightarrow> [] | Some s \<Rightarrow> s))))
      else None)"

text \<open>\<open>GET\<close> has no \<open>try\<close>: an exception of the query leaves the handler (\<open>Inl\<close>).\<close>

definition GET :: "js_env \<Rightarrow> redis_client option \<Rightarrow> query \<Rightarrow> error + json_object list" where
  "GET env redis q = getLatestDeployRecords env redis (limit_of env q) (projects_of q)"

text \<open>The request body of \<open>POST\<close>: \<open>req.json()\<close> rejects (\<open>Unparsable\<close>), yields \<open>null\<close>, on
  which \<open>body[key]\<close> throws, or yields an object (a number or a string as body has no
  properties, like the empty object). A response is \<open>{data: saved}\<close> or \<open>bad(msg, code)\<close>, whose message is a string built by the
  handler (\<open>Inl\<close>) or the message of the exception it caught (\<open>Inr\<close>).\<close>

datatype request_body = Unparsable | JsonNull | Body json_object

datatype response = Data DeployRecord | Bad "string + error" nat

definition required :: "string list" where
  "required = [''title'', ''projectName'', ''operator'', ''environment'', ''branch'', ''commit'', ''status'']"

text \<open>\<open>body[key]\<close>.\<close>

definition field :: "json_object \<Rightarrow> string \<Rightarrow> string option" where
  "field body key =
     (if key = ''title'' then j_title body
      else if key = ''projectName'' then j_projectName body
      else if key = ''operator'' then j_operator body
      else if key = ''environment'' then j_environment body
      else if key = ''branch'' then j_branch body
      else if key = ''commit'' then j_commit body
      else if key = ''status'' then j_status body
      else if key = ''note'' then j_note body
      else if key = ''deployedAt'' then j_deployedAt body
      else if key = ''id'' then j_id body
      else None)"

text \<open>\<open>String(v)\<close> on an optional string.\<close>

fun String_of :: "string option \<Rightarrow> string" where
  "String_of None = ''undefined''"
| "String_of (Some s) = s"

definition POST ::
  "js_env \<Rightarrow> string \<Rightarrow> request_body \<Rightarrow> redis_client option \<Rightarrow> response \<times> redis_client option" where
  "POST env uuid req redis =
     (case req of
        Unparsable \<Rightarrow> (Bad (Inr SyntaxError) 400, redis)
      | JsonNull \<Rightarrow> (Bad (Inr TypeError) 400, redis)
      | Body body \<Rightarrow>
          (case find (\<lambda>key. \<not> truthy (field body key)) required of
             Some key \<Rightarrow> (Bad (Inl (''missing field: '' @ key)) 400, redis)
           | None \<Rightarrow>
               (case (if truthy (j_deployedAt body)
                      then (case Date_parse env (String_of (j_deployedAt body)) of
                              None \<Rightarrow> Inl RangeError
                            | Some t \<Rightarrow> Inr (Some (toISOString env t)))
                      else Inr None) of
                  Inl e \<Rightarrow> (Bad (Inr e) 400, redis)
                | Inr deployedAt \<Rightarrow>
                    (let payload =
                           \<lparr>p_title = String_of (j_title body),
                            p_projectName = String_of (j_projectName body),
                            p_operator = String_of (j_operator body),
                            p_environment = String_of (j_environment body),
                            p_branch = String_of (j_branch body),
                            p_commit = String_of (j_commit body),
                            p_note = (if truthy (j_note body) then Some (String_of (j_note body)) else None),
                            p_deployedAt = deployedAt,
                            p_status = (case j_status body of None \<Rightarrow> [] | Some s \<Rightarrow> s)\<rparr>
                     in case addDeployRecord env uuid payload redis of
                          (Inl e, redis') \<Rightarrow> (Bad (Inr e) 400, redis')
                        | (Inr saved, redis') \<Rightarrow> (Data saved, redis')))))"

section \<open>A concrete environment and concrete stores\<close>

text \<open>
  The theorems below hold for every environment. To run the functions on concrete inputs
  we fix one: the clock stands at 2026-11-02T00:00:00Z, and \<open>Date\<close>, \<open>Number\<close>, \<open>String\<close> and the
  client's deserialisation are given by tables that agree with JavaScript on the strings,
  numbers and instants listed.
\<close>

definition sample_dates :: "(string \<times> int) list" where
  "sample_dates =
     [(''2026-11-02T00:00:00.000Z'', 1793577600000),
      (''2026-11-01T12:00:00.000Z'', 1793534400000),
      (''2026-10-23T00:00:00.000Z'', 1792713600000),
      (''2026-10-02T00:00:00.000Z'', 1790899200000)]"

definition sample_numbers :: "(string \<times> jsnum) list" where
  "sample_numbers =
     [([], Fin 0), (''0'', Fin 0), (''7'', Fin 7), (''9'', Fin 9), (''10'', Fin 10),
      (''-5'', Fin (- 5)), (''1000'', Fin 1000), (''2.5'', Fin (5 / 2)), (''abc'', NaN)]"

definition sample_number_strings :: "(jsnum \<times> string) list" where
  "sample_number_strings =
     [(Fin 0, ''0''), (Fin 7, ''7''), (Fin 9, ''9''), (Fin 10, ''10''), (Fin (- 5), ''-5''),
      (Fin 1000, ''1000''), (Fin (5 / 2), ''2.5''), (NaN, ''NaN''), (PosInf, ''Infinity''),
      (NegInf, ''-Infinity'')]"

text \<open>Reply texts that are JSON; every other text used below is not.\<close>

definition sample_json :: "(string \<times> jsval) list" where
  "sample_json =
     [(''9'', JNum (Fin 9)), (''10'', JNum (Fin 10)), (''true'', JBool True), (''null'', JNull),
      (''{}'', JObj ''{}'')]"

definition sample_env :: js_env where
  "sample_env =
     \<lparr>Date_now = 1793577600000,
      Date_parse = map_of sample_dates,
      toISOString = (\<lambda>t. case find (\<lambda>(s, t'). t' = t) sample_dates of
                             None \<Rightarrow> []
                           | Some (s, t') \<Rightarrow> s),
      StringToNumber = (\<lambda>s. case map_of sample_numbers s of None \<Rightarrow> NaN | Some n \<Rightarrow> n),
      deserialize = (\<lambda>s. case map_of sample_json s of None \<Rightarrow> JStr s | Some v \<Rightarrow> v),
      Number_toString = (\<lambda>n. case map_of sample_number_strings n of
                                 None \<Rightarrow> ''NaN''
                               | Some s \<Rightarrow> s),
      Object_toString = (\<lambda>t. ''[object Object]'')\<rparr>"

definition empty_client :: redis_client where
  "empty_client =
     \<lparr>string_keys = (\<lambda>k. None), deploy_records_z = [], deploy_records = [],
      deploy_projects = [], faulty = (\<lambda>opn. False)\<rparr>"

definition payload_a :: CreateDeployPayload where
  "payload_a =
     \<lparr>p_title = ''deploy'', p_projectName = ''svc-a'', p_operator = ''alice'',
      p_environment = ''prod'', p_branch = ''main'', p_commit = ''abc123'', p_note = None,
      p_deployedAt = None, p_status = ''success''\<rparr>"

definition record_a :: DeployRecord where
  "record_a =
     \<lparr>r_id = ''id-a'', r_title = ''deploy'', r_projectName = ''svc-a'', r_operator = ''alice'',
      r_environment = ''prod'', r_branch = ''main'', r_commit = ''abc123'', r_note = None,
      r_deployedAt = ''2026-11-02T00:00:00.000Z'', r_status = ''success''\<rparr>"

text \<open>The client after \<open>payload_a\<close> was written into the empty database.\<close>

definition client_a :: redis_client where
  "client_a =
     \<lparr>string_keys = (\<lambda>k. if k = ''deploy_record:id-a''
                           then Some (RawObject (json_of record_a), 1796169600000) else None),
      deploy_records_z = [(''id-a'', 1793577600000)],
      deploy_records = [RawObject (json_of record_a)],
      deploy_projects = [''svc-a''],
      faulty = (\<lambda>opn. False)\<rparr>"

text \<open>A payload with an explicit timestamp 31 days before the sample clock.\<close>

definition payload_old :: CreateDeployPayload where
  "payload_old =
     \<lparr>p_title = ''deploy'', p_projectName = ''svc-b'', p_operator = ''bob'',
      p_environment = ''prod'', p_branch = ''main'', p_commit = ''def456'', p_note = None,
      p_deployedAt = Some ''2026-10-02T00:00:00.000Z'', p_status = ''success''\<rparr>"

definition record_old :: DeployRecord where
  "record_old =
     \<lparr>r_id = ''id-old'', r_title = ''deploy'', r_projectName = ''svc-b'', r_operator = ''bob'',
      r_environment = ''prod'', r_branch = ''main'', r_commit = ''def456'', r_note = None,
      r_deployedAt = ''2026-10-02T00:00:00.000Z'', r_status = ''success''\<rparr>"

text \<open>A payload with an explicit timestamp 10 days before the sample clock.\<close>

definition payload_b :: CreateDeployPayload where
  "payload_b =
     \<lparr>p_title = ''deploy'', p_projectName = ''svc-b'', p_operator = ''bob'',
      p_environment = ''prod'', p_branch = ''main'', p_commit = ''def456'', p_note = None,
      p_deployedAt = Some ''2026-10-23T00:00:00.000Z'', p_status = ''success''\<rparr>"

definition record_b :: DeployRecord where
  "record_b =
     \<lparr>r_id = ''id-b'', r_title = ''deploy'', r_projectName = ''svc-b'', r_operator = ''bob'',
      r_environment = ''prod'', r_branch = ''main'', r_commit = ''def456'', r_note = None,
      r_deployedAt = ''2026-10-23T00:00:00.000Z'', r_status = ''success''\<rparr>"

text \<open>\<open>client_a\<close> with a failing \<open>MGET\<close>.\<close>

definition client_a_mget_down :: redis_client where
  "client_a_mget_down = client_a\<lparr>faulty := (\<lambda>opn. opn = MGET)\<rparr>"

text \<open>A request body with every required field, and a status outside \<open>DeployStatus\<close>.\<close>

definition body_banana :: json_object where
  "body_banana =
     \<lparr>j_id = None, j_title = Some ''deploy'', j_projectName = Some ''svc-a'',
      j_operator = Some ''alice'', j_environment = Some ''prod'', j_branch = Some ''main'',
      j_commit = Some ''abc123'', j_note = None, j_deployedAt = None,
      j_status = Some ''banana''\<rparr>"

definition record_banana :: DeployRecord where
  "record_banana =
     \<lparr>r_id = ''id-x'', r_title = ''deploy'', r_projectName = ''svc-a'', r_operator = ''alice'',
      r_environment = ''prod'', r_branch = ''main'', r_commit = ''abc123'', r_note = None,
      r_deployedAt = ''2026-11-02T00:00:00.000Z'', r_status = ''banana''\<rparr>"

text \<open>A request body without \<open>operator\<close> and without \<open>status\<close>.\<close>

definition body_no_operator :: json_object where
  "body_no_operator =
     \<lparr>j_id = None, j_title = Some ''deploy'', j_projectName = Some ''svc-a'',
      j_operator = None, j_environment = Some ''prod'', j_branch = Some ''main'',
      j_commit = Some ''abc123'', j_note = None, j_deployedAt = None,
      j_status = None\<rparr>"





text \<open>A payload whose timestamp is not a date.\<close>

definition payload_garbled :: CreateDeployPayload where
  "payload_garbled =
     \<lparr>p_title = ''deploy'', p_projectName = ''svc-a'', p_operator = ''alice'',
      p_environment = ''prod'', p_branch = ''main'', p_commit = ''abc123'', p_note = None,
      p_deployedAt = Some ''yesterday'', p_status = ''success''\<rparr>"

text \<open>The request body that carries the same fields, and the record that \<open>addDeployRecord\<close>
  makes of the payload.\<close>

definition body_garbled :: json_object where
  "body_garbled =
     \<lparr>j_id = None, j_title = Some ''deploy'', j_projectName = Some ''svc-a'',
      j_operator = Some ''alice'', j_environment = Some ''prod'', j_branch = Some ''main'',
      j_commit = Some ''abc123'', j_note = None, j_deployedAt = Some ''yesterday'',
      j_status = Some ''success''\<rparr>"

definition record_garbled :: DeployRecord where
  "record_garbled =
     \<lparr>r_id = ''id-g'', r_title = ''deploy'', r_projectName = ''svc-a'', r_operator = ''alice'',
      r_environment = ''prod'', r_branch = ''main'', r_commit = ''abc123'', r_note = None,
      r_deployedAt = ''2026-11-02T00:00:00.000Z'', r_status = ''success''\<rparr>"

section \<open>Notions used to state the properties\<close>

text \<open>A record passes the two filters of lines 87 to 89: it is inside the retention window
  and, when a non-empty project filter is given, its project is one of the names.\<close>

definition passes :: "js_env \<Rightarrow> string list option \<Rightarrow> json_object \<Rightarrow> bool" where
  "passes env projectNames r =
     (in_window env (Date_now env - THIRTY_DAYS_MS) r
      \<and> (case projectNames of
            None \<Rightarrow> True
          | Some names \<Rightarrow>
              names = [] \<or> (case j_projectName r of None \<Rightarrow> False | Some p \<Rightarrow> p \<in> set names)))"

text \<open>The \<open>Map\<close> \<open>byId\<close> after the two loops of lines 85 and 86.\<close>

definition byId_of :: "json_object list \<Rightarrow> json_object list \<Rightarrow> (string option \<times> json_object) list" where
  "byId_of fromZset fromList =
     foldl (\<lambda>m r. Map_set m (j_id r) r) (foldl (\<lambda>m r. Map_set m (j_id r) r) [] fromList) fromZset"

text \<open>\<open>a\<close> is not older than \<open>b\<close> for the comparator: \<open>a.deployedAt < b.deployedAt\<close> is false.\<close>

abbreviation not_older :: "json_object \<Rightarrow> json_object \<Rightarrow> bool" where
  "not_older a b \<equiv> \<not> js_lt (j_deployedAt a) (j_deployedAt b)"

text \<open>The number of retained records that are not older than \<open>x\<close> (\<open>x\<close> itself counts when
  it is retained): the position of \<open>x\<close> in the sorted list is below this number.\<close>

definition rank :: "js_env \<Rightarrow> string list option \<Rightarrow> json_object list \<Rightarrow> json_object \<Rightarrow> nat" where
  "rank env projectNames merged x =
     length (filter (\<lambda>y. \<not> js_lt (j_deployedAt y) (j_deployedAt x)) (retained env projectNames merged))"

text \<open>No stored value, under a string key or in the list, is a record with identifier
  \<open>uuid\<close>: what \<open>randomUUID\<close> guarantees for the identifier it returns.\<close>

definition fresh_id :: "redis_client \<Rightarrow> string \<Rightarrow> bool" where
  "fresh_id c uuid =
     ((\<forall>k v e r. string_keys c k = Some (v, e) \<longrightarrow> coerceRecord v = Some r \<longrightarrow> j_id r \<noteq> Some uuid)
      \<and> (\<forall>v\<in>set (deploy_records c). \<forall>r. coerceRecord v = Some r \<longrightarrow> j_id r \<noteq> Some uuid))"

text \<open>\<open>client_a\<close> after \<open>payload_old\<close> was written with identifier \<open>id-old\<close>, and after
  \<open>payload_b\<close> was written with identifier \<open>id-b\<close>.\<close>

definition client_a_old :: redis_client where
  "client_a_old =
     \<lparr>string_keys = (\<lambda>k. if k = ''deploy_record:id-old''
                           then Some (RawObject (json_of record_old), 1796169600000)
                           else if k = ''deploy_record:id-a''
                           then Some (RawObject (json_of record_a), 1796169600000) else None),
      deploy_records_z = [(''id-a'', 1793577600000), (''id-old'', 1790899200000)],
      deploy_records = [RawObject (json_of record_old), RawObject (json_of record_a)],
      deploy_projects = [''svc-a'', ''svc-b''],
      faulty = (\<lambda>opn. False)\<rparr>"

definition client_ab :: redis_client where
  "client_ab =
     \<lparr>string_keys = (\<lambda>k. if k = ''deploy_record:id-b''
                           then Some (RawObject (json_of record_b), 1796169600000)
                           else if k = ''deploy_record:id-a''
                           then Some (RawObject (json_of record_a), 1796169600000) else None),
      deploy_records_z = [(''id-a'', 1793577600000), (''id-b'', 1792713600000)],
      deploy_records = [RawObject (json_of record_b), RawObject (json_of record_a)],
      deploy_projects = [''svc-a'', ''svc-b''],
      faulty = (\<lambda>opn. False)\<rparr>"

section \<open>Basic facts about sorting, slicing and filtering\<close>

lemma set_insert_by: "set (insert_by cmp x ys) = insert x (set ys)"
  by (induction ys) auto

lemma Array_sort_Nil: "Array_sort cmp [] = []"
  by (simp add: Array_sort_def)

lemma Array_sort_snoc: "Array_sort cmp (xs @ [x]) = insert_by cmp x (Array_sort cmp xs)"
  by (simp add: Array_sort_def)

lemma set_Array_sort: "set (Array_sort cmp xs) = set xs"
  by (induction xs rule: rev_induct) (simp_all add: Array_sort_Nil Array_sort_snoc set_insert_by)

lemma length_insert_by: "length (insert_by cmp x ys) = Suc (length ys)"
  by (induction ys) auto

lemma length_Array_sort: "length (Array_sort cmp xs) = length xs"
  by (induction xs rule: rev_induct) (simp_all add: Array_sort_Nil Array_sort_snoc length_insert_by)

lemma set_Array_slice0: "set (Array_slice0 xs limit) \<subseteq> set xs"
  unfolding Array_slice0_def by (auto split: jsnum.splits dest: in_set_takeD)

lemma set_retained:
  "set (retained env pn merged)
     \<subseteq> {r \<in> set merged. in_window env (Date_now env - THIRTY_DAYS_MS) r}"
  unfolding retained_def by (auto simp: Let_def split: option.splits)

text \<open>Whatever \<open>getLatestDeployRecords\<close> returns is the empty list or the sorted, sliced list
  of the retained records of the two sources.\<close>

lemma getLatest_cases:
  assumes "getLatestDeployRecords env redis limit pn = Inr result"
  shows "result = [] \<or> (\<exists>c fz fl. redis = Some c \<and> readSources env c = Inr (fz, fl) \<and>
           result = Array_slice0 (Array_sort newest_first (retained env pn (mergeById fz fl))) limit)"
  using assms unfolding getLatestDeployRecords_def getLatest_try_def
  by (auto simp: Let_def split: option.splits sum.splits if_splits prod.splits)

lemma length_Array_slice0:
  assumes "jsnum_le (Fin 1) limit"
  shows "jsnum_le (Fin (of_nat (length (Array_slice0 xs limit)))) limit"
proof (cases limit)
  case (Fin q)
  with assms have q: "1 \<le> q" by simp
  then have "length (Array_slice0 xs limit) \<le> nat \<lfloor>q\<rfloor>"
    using Fin by (simp add: Array_slice0_def)
  moreover have "of_int \<lfloor>q\<rfloor> \<le> q" by simp
  moreover have "0 \<le> \<lfloor>q\<rfloor>" using q by simp
  ultimately have "of_nat (length (Array_slice0 xs limit)) \<le> q"
    by (metis (no_types, opaque_lifting) le_nat_iff of_int_of_nat_eq of_int_le_iff order_trans)
  then show ?thesis using Fin by simp
qed (use assms in \<open>simp_all\<close>)

section \<open>Retention\<close>

text \<open>
  Claim C2. For every client, limit and project filter: a record whose \<open>deployedAt\<close> parses
  to an instant more than 30 days before the current time is not in the list that
  \<open>getLatestDeployRecords\<close> returns.
\<close>

theorem getLatest_excludes_expired:
  assumes "getLatestDeployRecords env redis limit projectNames = Inr result"
      and "j_deployedAt r = Some s" and "Date_parse env s = Some t"
      and "t < Date_now env - THIRTY_DAYS_MS"
  shows "r \<notin> set result"
proof
  assume r: "r \<in> set result"
  with getLatest_cases[OF assms(1)] obtain c fz fl where
    "result = Array_slice0 (Array_sort newest_first (retained env projectNames (mergeById fz fl))) limit"
    by auto
  with r have "r \<in> set (retained env projectNames (mergeById fz fl))"
    using set_Array_slice0 set_Array_sort by fastforce
  then have "in_window env (Date_now env - THIRTY_DAYS_MS) r"
    using set_retained by fastforce
  with assms(2-4) show False by (simp add: in_window_def)
qed

text \<open>The record of \<open>payload_old\<close>, written after \<open>record_a\<close>, is stored but not listed.\<close>

theorem getLatest_excludes_expired_witness:
  "getLatestDeployRecords sample_env
     (snd (addDeployRecord sample_env ''id-old'' payload_old (Some client_a))) (Fin 50) None
     = Inr [json_of record_a]
   \<and> fst (addDeployRecord sample_env ''id-old'' payload_old (Some client_a)) = Inr record_old
   \<and> j_deployedAt (json_of record_old) = Some ''2026-10-02T00:00:00.000Z''
   \<and> Date_parse sample_env ''2026-10-02T00:00:00.000Z'' = Some 1790899200000
   \<and> 1790899200000 < Date_now sample_env - THIRTY_DAYS_MS
   \<and> json_of record_old \<notin> set [json_of record_a]"
proof -
  have a: "getLatestDeployRecords sample_env
     (snd (addDeployRecord sample_env ''id-old'' payload_old (Some client_a))) (Fin 50) None
     = Inr [json_of record_a]"
    by code_simp
  have b: "j_deployedAt (json_of record_old) = Some ''2026-10-02T00:00:00.000Z''"
    by code_simp
  have c: "Date_parse sample_env ''2026-10-02T00:00:00.000Z'' = Some 1790899200000"
    by code_simp
  have d: "1790899200000 < Date_now sample_env - THIRTY_DAYS_MS"
    by code_simp
  have e: "fst (addDeployRecord sample_env ''id-old'' payload_old (Some client_a)) = Inr record_old"
    by code_simp
  from getLatest_excludes_expired[OF a b c d] a b c d e show ?thesis by blast
qed

section \<open>The limit bounds the result\<close>

text \<open>
  Claim C9. For every client, project filter and limit of at least 1, the list returned by
  \<open>getLatestDeployRecords\<close> has at most \<open>limit\<close> elements.
\<close>

theorem getLatest_length_le_limit:
  assumes "jsnum_le (Fin 1) limit"
      and "getLatestDeployRecords env redis limit projectNames = Inr result"
  shows "jsnum_le (Fin (of_nat (length result))) limit"
proof -
  from getLatest_cases[OF assms(2)] show ?thesis
  proof
    assume "result = []"
    then show ?thesis using assms(1) by (cases limit) auto
  next
    assume "\<exists>c fz fl. redis = Some c \<and> readSources env c = Inr (fz, fl) \<and>
           result = Array_slice0 (Array_sort newest_first (retained env projectNames (mergeById fz fl))) limit"
    then show ?thesis using length_Array_slice0[OF assms(1)] by auto
  qed
qed

text \<open>With \<open>record_a\<close> and a second, older record stored, a limit of 1 returns one record.\<close>

theorem getLatest_length_le_limit_witness:
  "jsnum_le (Fin 1) (Fin 1)
   \<and> getLatestDeployRecords sample_env
        (snd (addDeployRecord sample_env ''id-b'' payload_b (Some client_a))) (Fin 1) None
      = Inr [json_of record_a]
   \<and> jsnum_le (Fin (of_nat (length [json_of record_a]))) (Fin 1)"
proof -
  have a: "jsnum_le (Fin 1) (Fin 1)" by simp
  have b: "getLatestDeployRecords sample_env
        (snd (addDeployRecord sample_env ''id-b'' payload_b (Some client_a))) (Fin 1) None
      = Inr [json_of record_a]"
    by code_simp
  from getLatest_length_le_limit[OF a b] a b show ?thesis by blast
qed

section \<open>Failing reads\<close>

text \<open>
  Claim C5. Without a configured client \<open>getLatestDeployRecords\<close> raises the configuration
  error; with a configured client it never raises, and when one of the storage operations
  it performs raises (\<open>zrange\<close>; \<open>mget\<close>, which is called when \<open>zrange\<close> returned identifiers;
  \<open>lrange\<close>) it returns the empty list.
\<close>

theorem getLatest_swallows_storage_errors:
  "getLatestDeployRecords env None limit pn = Inl NotConfigured
   \<and> (\<forall>e. getLatestDeployRecords env (Some c) limit pn \<noteq> Inl e)
   \<and> ((\<exists>e. redis_zrange_rev c 0 (MAX_ITEMS - 1) = Inl e)
        \<or> (\<exists>ids e. redis_zrange_rev c 0 (MAX_ITEMS - 1) = Inr ids \<and> ids \<noteq> []
               \<and> redis_mget c (Date_now env) (map (\<lambda>i. DEPLOY_RECORD_PREFIX @ i) ids) = Inl e)
        \<or> (\<exists>e. redis_lrange c 0 (MAX_ITEMS - 1) = Inl e)
       \<longrightarrow> getLatestDeployRecords env (Some c) limit pn = Inr [])"
  unfolding getLatestDeployRecords_def getLatest_try_def readSources_def
  by (auto simp: Let_def split: option.splits sum.splits prod.splits)

text \<open>The same database answers with \<open>record_a\<close> when healthy and with the empty list when
  \<open>mget\<close> fails.\<close>

theorem getLatest_swallows_storage_errors_witness:
  "redis_zrange_rev client_a_mget_down 0 (MAX_ITEMS - 1) = Inr [''id-a'']
   \<and> redis_mget client_a_mget_down (Date_now sample_env)
        (map (\<lambda>i. DEPLOY_RECORD_PREFIX @ i) [''id-a'']) = Inl (RedisError MGET)
   \<and> getLatestDeployRecords sample_env (Some client_a_mget_down) (Fin 20) None = Inr []
   \<and> getLatestDeployRecords sample_env (Some client_a) (Fin 20) None = Inr [json_of record_a]"
proof -
  have a: "redis_zrange_rev client_a_mget_down 0 (MAX_ITEMS - 1) = Inr [''id-a'']"
    by code_simp
  have b: "redis_mget client_a_mget_down (Date_now sample_env)
        (map (\<lambda>i. DEPLOY_RECORD_PREFIX @ i) [''id-a'']) = Inl (RedisError MGET)"
    by code_simp
  have c: "getLatestDeployRecords sample_env (Some client_a) (Fin 20) None = Inr [json_of record_a]"
    by code_simp
  from getLatest_swallows_storage_errors[of sample_env "Fin 20" None client_a_mget_down] a b
  have "getLatestDeployRecords sample_env (Some client_a_mget_down) (Fin 20) None = Inr []"
    by blast
  with a b c show ?thesis by blast
qed

section \<open>The limit of \<open>GET /deploy\<close>\<close>

text \<open>
  Claim C7 as stated: the effective limit is the value of the \<open>limit\<close> parameter clamped to
  \<open>[1, 50]\<close>, 20 when the parameter is absent. It fails for \<open>limit=0\<close>: the clamped value is 1,
  the handler passes 20, because \<open>0 || 20\<close> is \<open>20\<close>.
\<close>

theorem limit_zero_counterexample:
  "limit_of sample_env \<lparr>q_limit = Some ''0'', q_projectName = [], q_projects = None\<rparr> = Fin 20
   \<and> spec_limit sample_env \<lparr>q_limit = Some ''0'', q_projectName = [], q_projects = None\<rparr> = Fin 1"
  by (simp add: limit_of_def limit_number_def spec_limit_def clamp_1_50_def sample_env_def
        sample_numbers_def)

text \<open>
  Claim C7, amended. The effective limit is 20 when the parameter is absent or its numeric
  value is \<open>NaN\<close> or zero; in every other case it is the numeric value clamped to \<open>[1, 50]\<close>.
  It always lies in \<open>[1, 50]\<close>.
\<close>

theorem limit_of_clamped:
  "limit_of env q =
     (if limit_number env q = NaN \<or> limit_number env q = Fin 0 then Fin 20
      else clamp_1_50 (limit_number env q))
   \<and> (q_limit q = None \<longrightarrow> limit_of env q = Fin 20)
   \<and> jsnum_le (Fin 1) (limit_of env q) \<and> jsnum_le (limit_of env q) (Fin 50)"
  by (cases "limit_number env q")
     (auto simp: limit_of_def clamp_1_50_def Let_def min_def max_def limit_number_def)

theorem limit_of_clamped_witness:
  "limit_of sample_env \<lparr>q_limit = None, q_projectName = [], q_projects = None\<rparr> = Fin 20
   \<and> limit_of sample_env \<lparr>q_limit = Some ''-5'', q_projectName = [], q_projects = None\<rparr> = Fin 1
   \<and> limit_of sample_env \<lparr>q_limit = Some ''1000'', q_projectName = [], q_projects = None\<rparr> = Fin 50
   \<and> limit_of sample_env \<lparr>q_limit = Some ''7'', q_projectName = [], q_projects = None\<rparr> = Fin 7
   \<and> limit_of sample_env \<lparr>q_limit = Some ''abc'', q_projectName = [], q_projects = None\<rparr> = Fin 20"
proof -
  have n: "limit_number sample_env \<lparr>q_limit = None, q_projectName = [], q_projects = None\<rparr>
             = Fin 0"
          "limit_number sample_env \<lparr>q_limit = Some ''-5'', q_projectName = [], q_projects = None\<rparr>
             = Fin (- 5)"
          "limit_number sample_env \<lparr>q_limit = Some ''1000'', q_projectName = [], q_projects = None\<rparr>
             = Fin 1000"
          "limit_number sample_env \<lparr>q_limit = Some ''7'', q_projectName = [], q_projects = None\<rparr>
             = Fin 7"
          "limit_number sample_env \<lparr>q_limit = Some ''abc'', q_projectName = [], q_projects = None\<rparr>
             = NaN"
    by (simp_all add: limit_number_def sample_env_def sample_numbers_def)
  show ?thesis
    using limit_of_clamped[of sample_env "\<lparr>q_limit = None, q_projectName = [], q_projects = None\<rparr>"]
      limit_of_clamped[of sample_env "\<lparr>q_limit = Some ''-5'', q_projectName = [], q_projects = None\<rparr>"]
      limit_of_clamped[of sample_env "\<lparr>q_limit = Some ''1000'', q_projectName = [], q_projects = None\<rparr>"]
      limit_of_clamped[of sample_env "\<lparr>q_limit = Some ''7'', q_projectName = [], q_projects = None\<rparr>"]
      limit_of_clamped[of sample_env "\<lparr>q_limit = Some ''abc'', q_projectName = [], q_projects = None\<rparr>"]
    by (simp add: n clamp_1_50_def)
qed

section \<open>Validation in \<open>POST /deploy\<close>\<close>

lemma find_first: "\<forall>y\<in>set ys. \<not> P y \<Longrightarrow> P x \<Longrightarrow> find P (ys @ x # zs) = Some x"
  by (induction ys) auto

text \<open>
  Claim C3. A required field is missing for the handler when \<open>!body[key]\<close> holds: the
  property is absent or the empty string. When some required field is missing, the handler
  answers 400 with the message \<open>missing field: k\<close>, where \<open>k\<close> is the first missing field in
  the order of \<open>required\<close>, and the client is left as it was: nothing is written.
\<close>

theorem POST_missing_field:
  assumes "key \<in> set required" and "\<not> truthy (field body key)"
  shows "\<exists>before k after. required = before @ k # after \<and> \<not> truthy (field body k)
           \<and> (\<forall>k'\<in>set before. truthy (field body k'))
           \<and> POST env uuid (Body body) redis = (Bad (Inl (''missing field: '' @ k)) 400, redis)"
proof -
  from assms have "\<exists>k\<in>set required. \<not> truthy (field body k)" by blast
  from split_list_first_prop[OF this] obtain before k after where
    s: "required = before @ k # after" and k: "\<not> truthy (field body k)"
    and b: "\<forall>k'\<in>set before. \<not> \<not> truthy (field body k')" by blast
  then have "find (\<lambda>key. \<not> truthy (field body key)) required = Some k"
    using find_first[of before "\<lambda>key. \<not> truthy (field body key)" k after] by simp
  then have "POST env uuid (Body body) redis = (Bad (Inl (''missing field: '' @ k)) 400, redis)"
    by (simp add: POST_def)
  with s k b show ?thesis by blast
qed

text \<open>A body without \<open>operator\<close> and \<open>status\<close>: the answer names \<open>operator\<close>, the store stays
  \<open>client_a\<close>.\<close>

theorem POST_missing_field_witness:
  "''status'' \<in> set required \<and> \<not> truthy (field body_no_operator ''status'')
   \<and> POST sample_env ''id-y'' (Body body_no_operator) (Some client_a)
       = (Bad (Inl ''missing field: operator'') 400, Some client_a)"
proof -
  have a: "''status'' \<in> set required" by (simp add: required_def)
  have b: "\<not> truthy (field body_no_operator ''status'')"
    by (simp add: field_def body_no_operator_def)
  from POST_missing_field[OF a b, of sample_env "''id-y''" "Some client_a"]
  obtain before k after where
    "required = before @ k # after" "\<not> truthy (field body_no_operator k)"
    "\<forall>k'\<in>set before. truthy (field body_no_operator k')"
    and p: "POST sample_env ''id-y'' (Body body_no_operator) (Some client_a)
          = (Bad (Inl (''missing field: '' @ k)) 400, Some client_a)"
    by blast
  have "POST sample_env ''id-y'' (Body body_no_operator) (Some client_a)
          = (Bad (Inl ''missing field: operator'') 400, Some client_a)"
    by (simp add: POST_def required_def field_def body_no_operator_def)
  with a b show ?thesis by blast
qed

section \<open>The status of a stored record\<close>

text \<open>
  Claim C8 says that a record stored through \<open>POST /deploy\<close> has a status in \<open>DeployStatus\<close>.
  The handler only tests that \<open>status\<close> is truthy and casts it: the body \<open>body_banana\<close> is
  accepted, and the record with status \<open>banana\<close> is stored and listed.
\<close>

theorem POST_stores_unknown_status:
  "fst (POST sample_env ''id-x'' (Body body_banana) (Some empty_client)) = Data record_banana
   \<and> r_status record_banana \<notin> DeployStatus
   \<and> getLatestDeployRecords sample_env
        (snd (POST sample_env ''id-x'' (Body body_banana) (Some empty_client))) (Fin 20) None
      = Inr [json_of record_banana]"
  by code_simp

section \<open>The project list\<close>













section \<open>The deployment timestamp\<close>

lemma resolveDeployedAt_cases:
  assumes "Date_parse env [] = None"
  shows "resolveDeployedAt env input =
           (case input of
              None \<Rightarrow> toISOString env (Date_now env)
            | Some s \<Rightarrow> (case Date_parse env (trim s) of
                          None \<Rightarrow> toISOString env (Date_now env)
                        | Some t \<Rightarrow> toISOString env t))"
proof (cases input)
  case None
  then show ?thesis by (simp add: resolveDeployedAt_def trim_def)
next
  case (Some s)
  then show ?thesis using assms
    by (cases "trim s = []") (simp_all add: resolveDeployedAt_def)
qed

text \<open>
  What \<open>addDeployRecord\<close> does with the optional timestamp of its payload. With a healthy
  client it succeeds whatever the timestamp is; the record it returns and stores (under its
  key and at the head of the list) has as \<open>deployedAt\<close> the current time when the timestamp
  is absent or cannot be parsed, and otherwise the parsed instant in ISO format. The
  assumptions on the environment are facts of JavaScript: \<open>new Date("")\<close> is invalid, and
  what \<open>toISOString\<close> prints for the clock and for the parsed instant is a date.
\<close>

lemma addDeployRecord_resolves_deployedAt:
  assumes healthy: "\<forall>opn. \<not> faulty c opn"
      and blank: "Date_parse env [] = None"
      and now: "Date_parse env (toISOString env (Date_now env)) \<noteq> None"
      and given: "\<forall>s t. p_deployedAt payload = Some s \<longrightarrow> Date_parse env (trim s) = Some t
                    \<longrightarrow> Date_parse env (toISOString env t) \<noteq> None"
  shows "\<exists>record c' rest.
           addDeployRecord env uuid payload (Some c) = (Inr record, Some c')
           \<and> r_deployedAt record =
               (case p_deployedAt payload of
                  None \<Rightarrow> toISOString env (Date_now env)
                | Some s \<Rightarrow> (case Date_parse env (trim s) of
                              None \<Rightarrow> toISOString env (Date_now env)
                            | Some t \<Rightarrow> toISOString env t))
           \<and> string_keys c' (DEPLOY_RECORD_PREFIX @ uuid)
               = Some (JSON_stringify record, Date_now env + 2592000000)
           \<and> deploy_records c' = JSON_stringify record # rest"
proof -
  note r = resolveDeployedAt_cases[OF blank, of "p_deployedAt payload"]
  have "Date_parse env (resolveDeployedAt env (p_deployedAt payload)) \<noteq> None"
  proof (cases "p_deployedAt payload")
    case None
    with r now show ?thesis by simp
  next
    case (Some s)
    show ?thesis
    proof (cases "Date_parse env (trim s)")
      case None
      with r Some now show ?thesis by simp
    next
      case (Some t)
      with r \<open>p_deployedAt payload = Some s\<close> given show ?thesis by simp
    qed
  qed
  then obtain t where t: "Date_parse env (resolveDeployedAt env (p_deployedAt payload)) = Some t"
    by blast
  show ?thesis
    using healthy t r
    by (simp add: addDeployRecord_def Let_def redis_set_def redis_zadd_def
          redis_zremrangebyscore_def redis_lpush_def redis_ltrim_def redis_sadd_def
          THIRTY_DAYS_MS_def MAX_ITEMS_def)
qed

text \<open>What the handler of \<open>POST\<close> does with a timestamp that is not a date: line 622 converts
  it with \<open>new Date(body.deployedAt).toISOString()\<close>, which throws, before \<open>addDeployRecord\<close>
  is called.\<close>

lemma POST_unparsable_timestamp:
  assumes "\<forall>key\<in>set required. truthy (field body key)"
      and "j_deployedAt body = Some s" and "s \<noteq> []" and "Date_parse env s = None"
  shows "POST env uuid (Body body) redis = (Bad (Inr RangeError) 400, redis)"
proof -
  from assms(1) have "find (\<lambda>key. \<not> truthy (field body key)) required = None"
    by (simp add: find_None_iff)
  with assms(2-4) show ?thesis by (simp add: POST_def)
qed

text \<open>
  Claim C4 says that a create request whose timestamp cannot be parsed still succeeds and
  stores a record with the current time. \<open>resolveDeployedAt\<close> does substitute the current
  time: \<open>addDeployRecord\<close> on the payload with the timestamp \<open>yesterday\<close> returns
  \<open>record_garbled\<close>. The request with that timestamp never gets there: \<open>POST\<close> on
  \<open>body_garbled\<close> answers 400 with the \<open>RangeError\<close> and leaves the store as it was.
\<close>

theorem POST_rejects_unparsable_timestamp:
  "POST sample_env ''id-g'' (Body body_garbled) (Some client_a)
     = (Bad (Inr RangeError) 400, Some client_a)
   \<and> j_deployedAt body_garbled = p_deployedAt payload_garbled
   \<and> fst (addDeployRecord sample_env ''id-g'' payload_garbled (Some client_a)) = Inr record_garbled
   \<and> r_deployedAt record_garbled = toISOString sample_env (Date_now sample_env)"
proof -
  have "POST sample_env ''id-g'' (Body body_garbled) (Some client_a)
          = (Bad (Inr RangeError) 400, Some client_a)"
    by (simp add: POST_def required_def field_def body_garbled_def sample_env_def
          sample_dates_def)
  moreover have "j_deployedAt body_garbled = p_deployedAt payload_garbled"
    by (simp add: body_garbled_def payload_garbled_def)
  moreover have
    "fst (addDeployRecord sample_env ''id-g'' payload_garbled (Some client_a)) = Inr record_garbled"
    by code_simp
  moreover have "r_deployedAt record_garbled = toISOString sample_env (Date_now sample_env)"
    by code_simp
  ultimately show ?thesis by blast
qed

section \<open>The merged map and the sorted list\<close>

lemma retained_eq_filter: "retained env pn xs = filter (passes env pn) xs"
proof (cases pn)
  case None
  then show ?thesis by (simp add: retained_def passes_def[abs_def])
next
  case (Some names)
  show ?thesis
  proof (cases "names = []")
    case True
    with Some show ?thesis by (simp add: retained_def passes_def[abs_def])
  next
    case False
    with Some show ?thesis
      by (simp add: retained_def passes_def[abs_def] Let_def conj_commute)
  qed
qed

lemma map_of_Map_set: "map_of (Map_set m k v) = (map_of m)(k \<mapsto> v)"
  by (induction m) (auto simp: fun_eq_iff)

lemma fst_set_Map_set: "fst ` set (Map_set m k v) = insert k (fst ` set m)"
  by (induction m k v rule: Map_set.induct) auto

lemma distinct_Map_set: "distinct (map fst m) \<Longrightarrow> distinct (map fst (Map_set m k v))"
proof (induction m)
  case Nil
  then show ?case by simp
next
  case (Cons p m)
  obtain k' v' where p: "p = (k', v')" by (cases p)
  show ?case
  proof (cases "k' = k")
    case True
    with Cons.prems p show ?thesis by simp
  next
    case False
    have "k' \<notin> fst ` set (Map_set m k v)"
      using Cons.prems p False by (simp add: fst_set_Map_set)
    with Cons p False show ?thesis by simp
  qed
qed

lemma keyed_Map_set:
  "\<forall>(k, v)\<in>set m. k = j_id v \<Longrightarrow> \<forall>(k, v)\<in>set (Map_set m (j_id r) r). k = j_id v"
  by (induction m "j_id r" r rule: Map_set.induct) auto

lemma fold_inv:
  "distinct (map fst m) \<Longrightarrow> \<forall>(k, v)\<in>set m. k = j_id v \<Longrightarrow>
   distinct (map fst (foldl (\<lambda>m r. Map_set m (j_id r) r) m xs))
   \<and> (\<forall>(k, v)\<in>set (foldl (\<lambda>m r. Map_set m (j_id r) r) m xs). k = j_id v)"
proof (induction xs arbitrary: m)
  case Nil
  then show ?case by simp
next
  case (Cons x xs)
  show ?case
    using Cons.IH[OF distinct_Map_set[OF Cons.prems(1)] keyed_Map_set[OF Cons.prems(2)]]
    by simp
qed

lemma map_of_fold:
  "map_of (foldl (\<lambda>m r. Map_set m (j_id r) r) m xs) k =
     (if \<exists>x\<in>set xs. j_id x = k then Some (last (filter (\<lambda>x. j_id x = k) xs)) else map_of m k)"
proof (induction xs rule: rev_induct)
  case Nil
  then show ?case by simp
next
  case (snoc x xs)
  then show ?case by (auto simp: map_of_Map_set)
qed

lemma byId_inv:
  "distinct (map fst (byId_of fz fl)) \<and> (\<forall>(k, v)\<in>set (byId_of fz fl). k = j_id v)"
proof -
  have "distinct (map fst (foldl (\<lambda>m r. Map_set m (j_id r) r) [] fl))
        \<and> (\<forall>(k, v)\<in>set (foldl (\<lambda>m r. Map_set m (j_id r) r) [] fl). k = j_id v)"
    by (rule fold_inv) simp_all
  then show ?thesis unfolding byId_of_def using fold_inv by blast
qed

lemma mergeById_byId: "mergeById fz fl = map snd (byId_of fz fl)"
  by (simp add: mergeById_def byId_of_def Let_def)

lemma map_j_id_mergeById: "map j_id (mergeById fz fl) = map fst (byId_of fz fl)"
  using byId_inv[of fz fl] by (auto simp: mergeById_byId)

lemma distinct_ids_mergeById: "distinct (map j_id (mergeById fz fl))"
  using byId_inv[of fz fl] by (simp add: map_j_id_mergeById)

lemma mergeById_iff: "r \<in> set (mergeById fz fl) \<longleftrightarrow> map_of (byId_of fz fl) (j_id r) = Some r"
proof
  assume "r \<in> set (mergeById fz fl)"
  then obtain k where kr: "(k, r) \<in> set (byId_of fz fl)" by (auto simp: mergeById_byId)
  with byId_inv[of fz fl] have "k = j_id r" by auto
  with kr byId_inv[of fz fl] show "map_of (byId_of fz fl) (j_id r) = Some r" by simp
next
  assume "map_of (byId_of fz fl) (j_id r) = Some r"
  then have "(j_id r, r) \<in> set (byId_of fz fl)" by (rule map_of_SomeD)
  then show "r \<in> set (mergeById fz fl)" by (force simp: mergeById_byId)
qed

lemma map_of_byId:
  "map_of (byId_of fz fl) k =
     (if \<exists>x\<in>set fz. j_id x = k then Some (last (filter (\<lambda>x. j_id x = k) fz))
      else if \<exists>x\<in>set fl. j_id x = k then Some (last (filter (\<lambda>x. j_id x = k) fl))
      else None)"
  unfolding byId_of_def by (simp add: map_of_fold)



lemma distinct_map_insert_by:
  "distinct (map f (insert_by cmp x ys)) \<longleftrightarrow> f x \<notin> f ` set ys \<and> distinct (map f ys)"
  by (induction ys) (auto simp: set_insert_by)


lemma distinct_map_Array_sort: "distinct (map f (Array_sort cmp xs)) \<longleftrightarrow> distinct (map f xs)"
proof (induction xs rule: rev_induct)
  case Nil
  then show ?case by (simp add: Array_sort_Nil)
next
  case (snoc x xs)
  then show ?case by (auto simp: Array_sort_snoc distinct_map_insert_by set_Array_sort)
qed


lemma length_filter_insert_by:
  "length (filter P (insert_by cmp x ys)) = length (filter P (x # ys))"
  by (induction ys) auto


lemma length_filter_Array_sort: "length (filter P (Array_sort cmp xs)) = length (filter P xs)"
proof (induction xs rule: rev_induct)
  case Nil
  then show ?case by (simp add: Array_sort_Nil)
next
  case (snoc x xs)
  then show ?case by (simp add: Array_sort_snoc length_filter_insert_by)
qed


lemma js_lt_asym: "js_lt a b \<Longrightarrow> \<not> js_lt b a"
  by (cases a; cases b) auto


lemma not_older_trans:
  "j_deployedAt b \<noteq> None \<Longrightarrow> not_older a b \<Longrightarrow> not_older b c \<Longrightarrow> not_older a c"
  by (cases "j_deployedAt a"; cases "j_deployedAt b"; cases "j_deployedAt c") auto


lemma sorted_insert_by:
  assumes "sorted_wrt not_older ys" and "\<forall>y\<in>set ys. j_deployedAt y \<noteq> None"
  shows "sorted_wrt not_older (insert_by newest_first x ys)"
  using assms
proof (induction ys)
  case Nil
  then show ?case by simp
next
  case (Cons y ys)
  show ?case
  proof (cases "js_lt (j_deployedAt x) (j_deployedAt y)")
    case True
    then have ins: "insert_by newest_first x (y # ys) = y # insert_by newest_first x ys"
      by (simp add: newest_first_def)
    have "not_older y x" using True js_lt_asym by blast
    with Cons ins show ?thesis by (auto simp: set_insert_by)
  next
    case False
    then have ins: "insert_by newest_first x (y # ys) = x # y # ys"
      by (simp add: newest_first_def)
    have "\<forall>z\<in>set ys. not_older x z"
      using Cons.prems False not_older_trans[of y x] by auto
    with Cons.prems False ins show ?thesis by simp
  qed
qed


lemma sorted_Array_sort:
  "\<forall>y\<in>set xs. j_deployedAt y \<noteq> None \<Longrightarrow> sorted_wrt not_older (Array_sort newest_first xs)"
proof (induction xs rule: rev_induct)
  case Nil
  then show ?case by (simp add: Array_sort_Nil)
next
  case (snoc x xs)
  then show ?case by (simp add: Array_sort_snoc sorted_insert_by set_Array_sort)
qed


lemma filter_prefix_of_sorted:
  assumes "sorted_wrt R xs" and "\<forall>a\<in>set xs. \<forall>b\<in>set xs. R a b \<longrightarrow> P b \<longrightarrow> P a"
  shows "filter P xs = takeWhile P xs"
  using assms
proof (induction xs)
  case Nil
  then show ?case by simp
next
  case (Cons x xs)
  show ?case
  proof (cases "P x")
    case True
    with Cons show ?thesis by simp
  next
    case False
    have "\<forall>y\<in>set xs. \<not> P y" using Cons.prems False by auto
    then have "filter P xs = []" by (simp add: filter_empty_conv)
    with False show ?thesis by simp
  qed
qed


lemma in_take_sorted:
  assumes x: "x \<in> set xs" and some: "\<forall>y\<in>set xs. j_deployedAt y \<noteq> None"
      and rank: "length (filter (\<lambda>y. not_older y x) xs) \<le> n"
  shows "x \<in> set (take n (Array_sort newest_first xs))"
proof -
  let ?S = "Array_sort newest_first xs"
  let ?P = "\<lambda>y. not_older y x"
  have s: "sorted_wrt not_older ?S" using some by (rule sorted_Array_sort)
  have "\<forall>a\<in>set ?S. \<forall>b\<in>set ?S. not_older a b \<longrightarrow> ?P b \<longrightarrow> ?P a"
  proof (intro ballI impI)
    fix a b
    assume "b \<in> set ?S" and ab: "not_older a b" and bx: "not_older b x"
    then have "j_deployedAt b \<noteq> None" using some by (simp add: set_Array_sort)
    then show "not_older a x" using ab bx by (rule not_older_trans)
  qed
  with s have f: "filter ?P ?S = takeWhile ?P ?S" by (rule filter_prefix_of_sorted)
  have "?P x" by (cases "j_deployedAt x") auto
  with x have "x \<in> set (filter ?P ?S)" by (simp add: set_Array_sort)
  then have mem: "x \<in> set (takeWhile ?P ?S)" by (simp only: f)
  have tw: "takeWhile ?P ?S = take (length (takeWhile ?P ?S)) ?S"
    by (rule takeWhile_eq_take)
  have "length (filter ?P ?S) = length (filter ?P xs)"
    by (rule length_filter_Array_sort)
  then have "length (takeWhile ?P ?S) = length (filter ?P xs)" by (simp only: f)
  with rank have len: "length (takeWhile ?P ?S) \<le> n" by simp
  from mem tw have "x \<in> set (take (length (takeWhile ?P ?S)) ?S)" by metis
  with set_take_subset_set_take[OF len, of ?S] show ?thesis by blast
qed

lemma take_subset_slice0:
  assumes "jsnum_le (Fin (of_nat n)) limit"
  shows "set (take n xs) \<subseteq> set (Array_slice0 xs limit)"
proof (cases limit)
  case (Fin q)
  with assms have q: "of_nat n \<le> q" by simp
  then have "0 \<le> q" by (meson of_nat_0_le_iff order_trans)
  moreover have "int n \<le> \<lfloor>q\<rfloor>" using q by (simp add: le_floor_iff)
  then have "n \<le> nat \<lfloor>q\<rfloor>" by linarith
  ultimately show ?thesis using Fin set_take_subset_set_take[of n "nat \<lfloor>q\<rfloor>" xs]
    by (simp add: Array_slice0_def)
qed (use assms in \<open>auto simp: Array_slice0_def dest: in_set_takeD\<close>)



lemma slice0_is_take: "\<exists>k. Array_slice0 xs limit = take k xs"
proof (cases "ToIntegerOrInfinity limit")
  case PosInf
  then have "Array_slice0 xs limit = take (length xs) xs" by (simp add: Array_slice0_def)
  then show ?thesis by blast
next
  case NaN
  then have "Array_slice0 xs limit = take 0 xs" by (simp add: Array_slice0_def)
  then show ?thesis by blast
next
  case NegInf
  then have "Array_slice0 xs limit = take 0 xs" by (simp add: Array_slice0_def)
  then show ?thesis by blast
next
  case (Fin q)
  then show ?thesis by (auto simp: Array_slice0_def)
qed

lemma getLatest_eq:
  assumes "readSources env c = Inr (fz, fl)"
  shows "getLatestDeployRecords env (Some c) limit pn
           = Inr (Array_slice0 (Array_sort newest_first (retained env pn (mergeById fz fl))) limit)"
proof -
  have "Array_slice0 [] limit = ([] :: json_object list)"
    using slice0_is_take[of "[] :: json_object list" limit] by auto
  then show ?thesis using assms
    by (auto simp: getLatestDeployRecords_def getLatest_try_def Let_def)
qed

lemma distinct_map_count_le1:
  "distinct (map f xs) \<Longrightarrow> length (filter (\<lambda>x. f x = a) xs) \<le> 1"
proof (induction xs)
  case Nil
  then show ?case by simp
next
  case (Cons x xs)
  show ?case
  proof (cases "f x = a")
    case True
    with Cons.prems have "a \<notin> f ` set xs" by simp
    then have "\<forall>y\<in>set xs. f y \<noteq> a" by blast
    then have "filter (\<lambda>x. f x = a) xs = []" by (induction xs) auto
    with True show ?thesis by simp
  next
    case False
    with Cons show ?thesis by simp
  qed
qed

lemma distinct_ids_result:
  "distinct (map j_id (Array_slice0 (Array_sort newest_first (retained env pn (mergeById fz fl))) limit))"
proof -
  have "distinct (map j_id (retained env pn (mergeById fz fl)))"
    unfolding retained_eq_filter using distinct_ids_mergeById by (rule distinct_map_filter)
  then have d: "distinct (map j_id (Array_sort newest_first (retained env pn (mergeById fz fl))))"
    by (simp add: distinct_map_Array_sort)
  obtain k where "Array_slice0 (Array_sort newest_first (retained env pn (mergeById fz fl))) limit
      = take k (Array_sort newest_first (retained env pn (mergeById fz fl)))"
    using slice0_is_take by blast
  with d show ?thesis by (simp add: take_map[symmetric])
qed

lemma last_filter_in: "\<exists>x\<in>set xs. P x \<Longrightarrow> last (filter P xs) \<in> set xs \<and> P (last (filter P xs))"
proof -
  assume "\<exists>x\<in>set xs. P x"
  then have "filter P xs \<noteq> []" by (simp add: filter_empty_conv)
  then have "last (filter P xs) \<in> set (filter P xs)" by (rule last_in_set)
  then show ?thesis by simp
qed

lemma in_window_Some: "in_window env m r \<Longrightarrow> j_deployedAt r \<noteq> None"
  by (cases "j_deployedAt r") (simp_all add: in_window_def)

lemma in_result:
  assumes src: "readSources env c = Inr (fz, fl)"
      and x: "x \<in> set (mergeById fz fl)" and p: "passes env pn x"
      and r: "jsnum_le (Fin (of_nat (rank env pn (mergeById fz fl) x))) limit"
  shows "\<exists>result. getLatestDeployRecords env (Some c) limit pn = Inr result \<and> x \<in> set result"
proof -
  let ?L = "retained env pn (mergeById fz fl)"
  have xl: "x \<in> set ?L" using x p by (simp add: retained_eq_filter)
  have some: "\<forall>y\<in>set ?L. j_deployedAt y \<noteq> None"
    using set_retained[of env pn "mergeById fz fl"] in_window_Some by blast
  have "length (filter (\<lambda>y. not_older y x) ?L) \<le> rank env pn (mergeById fz fl) x"
    by (simp add: rank_def)
  with xl some have "x \<in> set (take (rank env pn (mergeById fz fl) x) (Array_sort newest_first ?L))"
    by (rule in_take_sorted)
  with take_subset_slice0[OF r, of "Array_sort newest_first ?L"]
  have "x \<in> set (Array_slice0 (Array_sort newest_first ?L) limit)"
    by (rule subsetD)
  then show ?thesis using getLatest_eq[OF src] by simp
qed

section \<open>The concrete stores\<close>

text \<open>The stores \<open>client_a\<close>, \<open>client_a_old\<close> and \<open>client_ab\<close> are what \<open>addDeployRecord\<close>
  produces from the empty database.\<close>

lemmas write_defs = addDeployRecord_def resolveDeployedAt_def trim_def redis_set_def redis_zadd_def
  redis_zremrangebyscore_def redis_lpush_def redis_ltrim_def redis_sadd_def JSON_stringify_def
  THIRTY_DAYS_MS_def MAX_ITEMS_def DEPLOY_RECORD_PREFIX_def Let_def

lemma add_a:
  "addDeployRecord sample_env ''id-a'' payload_a (Some empty_client) = (Inr record_a, Some client_a)"
  by (simp add: write_defs sample_env_def sample_dates_def payload_a_def record_a_def
        empty_client_def client_a_def is_white_space_def white_space_def fun_eq_iff)

lemma add_old:
  "addDeployRecord sample_env ''id-old'' payload_old (Some client_a)
     = (Inr record_old, Some client_a_old)"
  by (simp add: write_defs sample_env_def sample_dates_def payload_old_def record_old_def
        client_a_def client_a_old_def is_white_space_def white_space_def fun_eq_iff)

lemma add_b:
  "addDeployRecord sample_env ''id-b'' payload_b (Some client_a) = (Inr record_b, Some client_ab)"
  by (simp add: write_defs sample_env_def sample_dates_def payload_b_def record_b_def
        client_a_def client_ab_def is_white_space_def white_space_def fun_eq_iff)

lemma src_old: "readSources sample_env client_a_old
         = Inr ([json_of record_a, json_of record_old], [json_of record_old, json_of record_a])"
  by code_simp

lemma src_ab: "readSources sample_env client_ab
         = Inr ([json_of record_a, json_of record_b], [json_of record_b, json_of record_a])"
  by code_simp

lemma rank_b:
  "rank sample_env None
     (mergeById [json_of record_a, json_of record_b] [json_of record_b, json_of record_a])
     (json_of record_b) = 2"
  by code_simp

lemma fresh_b: "fresh_id client_a ''id-b''"
  by (auto simp: fresh_id_def client_a_def json_of_def record_a_def split: if_splits)

section \<open>De-duplication of the two sources\<close>

text \<open>
  Claim C6 as stated: when both sources hold a record with the same identifier, the returned
  list holds exactly one record with that identifier. It fails when the merged record is
  filtered out: after \<open>payload_old\<close> is written, the sorted set and the list both hold
  \<open>id-old\<close>, and the returned list holds no record with that identifier, because the
  retention filter runs after the merge.
\<close>

theorem getLatest_dedup_counterexample:
  "addDeployRecord sample_env ''id-old'' payload_old (Some client_a) = (Inr record_old, Some client_a_old)
   \<and> readSources sample_env client_a_old
         = Inr ([json_of record_a, json_of record_old], [json_of record_old, json_of record_a])
   \<and> getLatestDeployRecords sample_env (Some client_a_old) (Fin 50) None = Inr [json_of record_a]
   \<and> j_id (json_of record_a) \<noteq> j_id (json_of record_old)"
proof -
  have g: "getLatestDeployRecords sample_env (Some client_a_old) (Fin 50) None = Inr [json_of record_a]"
    by code_simp
  have n: "j_id (json_of record_a) \<noteq> j_id (json_of record_old)" by code_simp
  from add_old src_old g n show ?thesis by simp
qed

text \<open>
  Claim C6, amended. When both sources hold a record with the same identifier, the returned
  list holds at most one record with that identifier, and such a record is the version of the
  time-ordered index (the last one read from it with that identifier). It holds exactly one
  when that version passes the retention and project filters and at most \<open>limit\<close> retained
  records are not older than it.
\<close>

theorem getLatest_dedup_index_wins:
  assumes src: "readSources env c = Inr (fromZset, fromList)"
      and z: "z \<in> set fromZset" and l: "l \<in> set fromList" and same: "j_id l = j_id z"
      and res: "getLatestDeployRecords env (Some c) limit projectNames = Inr result"
  shows "length (filter (\<lambda>r. j_id r = j_id z) result) \<le> 1
         \<and> (\<forall>r\<in>set result. j_id r = j_id z
               \<longrightarrow> r = last (filter (\<lambda>x. j_id x = j_id z) fromZset))
         \<and> (passes env projectNames (last (filter (\<lambda>x. j_id x = j_id z) fromZset))
             \<and> jsnum_le (Fin (of_nat (rank env projectNames (mergeById fromZset fromList)
                                        (last (filter (\<lambda>x. j_id x = j_id z) fromZset))))) limit
             \<longrightarrow> length (filter (\<lambda>r. j_id r = j_id z) result) = 1)"
proof -
  let ?zv = "last (filter (\<lambda>x. j_id x = j_id z) fromZset)"
  let ?M = "mergeById fromZset fromList"
  have result: "result = Array_slice0 (Array_sort newest_first (retained env projectNames ?M)) limit"
    using getLatest_eq[OF src, of limit projectNames] res by simp
  have le1: "length (filter (\<lambda>r. j_id r = j_id z) result) \<le> 1"
    unfolding result using distinct_ids_result by (rule distinct_map_count_le1)
  have ex: "\<exists>x\<in>set fromZset. j_id x = j_id z" using z by blast
  then have look: "map_of (byId_of fromZset fromList) (j_id z) = Some ?zv"
    by (simp add: map_of_byId)
  have zv: "?zv \<in> set fromZset \<and> j_id ?zv = j_id z"
    using last_filter_in[OF ex] by simp
  have version: "\<forall>r\<in>set result. j_id r = j_id z \<longrightarrow> r = ?zv"
  proof (intro ballI impI)
    fix r assume "r \<in> set result" and id: "j_id r = j_id z"
    then have "r \<in> set ?M"
      unfolding result using set_Array_slice0 set_Array_sort set_retained by fastforce
    then have "map_of (byId_of fromZset fromList) (j_id r) = Some r" by (simp add: mergeById_iff)
    with look id show "r = ?zv" by simp
  qed
  have one: "length (filter (\<lambda>r. j_id r = j_id z) result) = 1"
    if p: "passes env projectNames ?zv"
      and r: "jsnum_le (Fin (of_nat (rank env projectNames ?M ?zv))) limit"
  proof -
    have "?zv \<in> set ?M" using look zv by (simp add: mergeById_iff)
    from in_result[OF src this p r] res have "?zv \<in> set result" by simp
    with zv have "filter (\<lambda>r. j_id r = j_id z) result \<noteq> []" by (auto simp: filter_empty_conv)
    then have "length (filter (\<lambda>r. j_id r = j_id z) result) \<noteq> 0" by simp
    with le1 show ?thesis by linarith
  qed
  from le1 version one show ?thesis by blast
qed


text \<open>\<open>id-b\<close> is in both sources of \<open>client_ab\<close> and once in the result.\<close>

theorem getLatest_dedup_index_wins_witness:
  "readSources sample_env client_ab
         = Inr ([json_of record_a, json_of record_b], [json_of record_b, json_of record_a])
   \<and> json_of record_b \<in> set [json_of record_a, json_of record_b]
   \<and> json_of record_b \<in> set [json_of record_b, json_of record_a]
   \<and> getLatestDeployRecords sample_env (Some client_ab) (Fin 2) None
        = Inr [json_of record_a, json_of record_b]
   \<and> length (filter (\<lambda>r. j_id r = j_id (json_of record_b)) [json_of record_a, json_of record_b]) = 1"
proof -
  have z: "json_of record_b \<in> set [json_of record_a, json_of record_b]" by simp
  have l: "json_of record_b \<in> set [json_of record_b, json_of record_a]" by simp
  have g: "getLatestDeployRecords sample_env (Some client_ab) (Fin 2) None
        = Inr [json_of record_a, json_of record_b]"
    by code_simp
  have "length (filter (\<lambda>r. j_id r = j_id (json_of record_b)) [json_of record_a, json_of record_b]) \<le> 1"
    using getLatest_dedup_index_wins[OF src_ab z l refl g] by blast
  moreover have "length (filter (\<lambda>r. j_id r = j_id (json_of record_b)) [json_of record_a, json_of record_b]) \<ge> 1"
    by code_simp
  ultimately have "length (filter (\<lambda>r. j_id r = j_id (json_of record_b)) [json_of record_a, json_of record_b]) = 1"
    by linarith
  with src_ab z l g show ?thesis by blast
qed


section \<open>Write, then read\<close>

lemma set_map_filter: "set (List.map_filter f xs) = {y. \<exists>x\<in>set xs. f x = Some y}"
  by (induction xs) (auto split: option.splits)

lemma addDeployRecord_Inr:
  assumes "addDeployRecord env uuid payload (Some c) = (Inr record, Some c')"
  shows "r_id record = uuid"
    and "Date_parse env (r_deployedAt record) \<noteq> None"
    and "\<exists>e. string_keys c' = (string_keys c)(DEPLOY_RECORD_PREFIX @ uuid \<mapsto> (JSON_stringify record, e))"
    and "deploy_records c' = take MAX_ITEMS (JSON_stringify record # deploy_records c)"
  using assms
  by (auto simp: addDeployRecord_def redis_set_def redis_zadd_def redis_zremrangebyscore_def
        redis_lpush_def redis_ltrim_def redis_sadd_def Let_def MAX_ITEMS_def
      split: sum.splits if_splits option.splits)

lemma mget_value:
  assumes "redis_mget c now keys = Inr vs" and "v \<in> set vs" and "coerceRecord v = Some r"
  shows "\<exists>k e. string_keys c k = Some (v, e)"
proof -
  from assms(1) have "vs = map (\<lambda>k. case string_keys c k of
                            None \<Rightarrow> RawNull
                          | Some (v, expiry) \<Rightarrow> if now < expiry then v else RawNull) keys"
    by (simp add: redis_mget_def split: if_splits)
  with assms(2) obtain k where
    v: "v = (case string_keys c k of
               None \<Rightarrow> RawNull
             | Some (v, expiry) \<Rightarrow> if now < expiry then v else RawNull)"
    by auto
  show ?thesis
  proof (cases "string_keys c k")
    case None
    with v assms(3) show ?thesis by simp
  next
    case (Some p)
    obtain v' e where p: "p = (v', e)" by (cases p)
    show ?thesis
    proof (cases "now < e")
      case True
      with v Some p show ?thesis by auto
    next
      case False
      with v Some p assms(3) show ?thesis by simp
    qed
  qed
qed

lemma readSources_Inr:
  assumes "readSources env c = Inr (fz, fl)"
  shows "fl = List.map_filter coerceRecord (take MAX_ITEMS (deploy_records c))"
    and "\<forall>r\<in>set fz. \<exists>k v e. string_keys c k = Some (v, e) \<and> coerceRecord v = Some r"
proof -
  from assms obtain ids where ids: "redis_zrange_rev c 0 (MAX_ITEMS - 1) = Inr ids"
    by (auto simp: readSources_def split: sum.splits)
  from assms ids obtain vs where
    vs: "(if length (map (\<lambda>i. DEPLOY_RECORD_PREFIX @ i) ids) > 0
          then redis_mget c (Date_now env) (map (\<lambda>i. DEPLOY_RECORD_PREFIX @ i) ids)
          else Inr []) = Inr vs"
    by (auto simp: readSources_def Let_def split: sum.splits)
  from assms ids vs obtain items where
    items: "redis_lrange c 0 (MAX_ITEMS - 1) = Inr items"
    and fz: "fz = List.map_filter coerceRecord vs"
    and fli: "fl = List.map_filter coerceRecord items"
    by (auto simp: readSources_def Let_def split: sum.splits if_splits)
  from items have "items = take MAX_ITEMS (deploy_records c)"
    by (simp add: redis_lrange_def MAX_ITEMS_def split: if_splits)
  with fli have fl: "fl = List.map_filter coerceRecord (take MAX_ITEMS (deploy_records c))"
    by simp
  from fl show "fl = List.map_filter coerceRecord (take MAX_ITEMS (deploy_records c))" by simp
  show "\<forall>r\<in>set fz. \<exists>k v e. string_keys c k = Some (v, e) \<and> coerceRecord v = Some r"
  proof
    fix r assume "r \<in> set fz"
    with fz obtain v where v: "v \<in> set vs" and cv: "coerceRecord v = Some r"
      by (auto simp: set_map_filter)
    from v vs have "redis_mget c (Date_now env) (map (\<lambda>i. DEPLOY_RECORD_PREFIX @ i) ids) = Inr vs"
      by (auto split: if_splits)
    from mget_value[OF this v cv] cv
    show "\<exists>k v e. string_keys c k = Some (v, e) \<and> coerceRecord v = Some r" by blast
  qed
qed

lemma last_filter_all_eq:
  assumes "\<exists>x\<in>set xs. P x" and "\<forall>x\<in>set xs. P x \<longrightarrow> x = a"
  shows "last (filter P xs) = a"
  using last_filter_in[OF assms(1)] assms(2) by blast

text \<open>
  Claim C1 as stated: a record written by \<open>addDeployRecord\<close> and inside the retention window
  is in the list returned for any limit of at least 1 and no project filter. It fails for
  \<open>payload_b\<close>, whose explicit timestamp is 10 days old, written after \<open>record_a\<close>: with limit 1
  the list is the newer \<open>record_a\<close> alone.
\<close>

theorem create_then_getLatest_counterexample:
  "addDeployRecord sample_env ''id-b'' payload_b (Some client_a) = (Inr record_b, Some client_ab)
   \<and> in_window sample_env (Date_now sample_env - THIRTY_DAYS_MS) (json_of record_b)
   \<and> jsnum_le (Fin 1) (Fin 1)
   \<and> getLatestDeployRecords sample_env (Some client_ab) (Fin 1) None = Inr [json_of record_a]
   \<and> json_of record_b \<notin> set [json_of record_a]"
proof -
  have win: "in_window sample_env (Date_now sample_env - THIRTY_DAYS_MS) (json_of record_b)"
    by code_simp
  have g: "getLatestDeployRecords sample_env (Some client_ab) (Fin 1) None = Inr [json_of record_a]"
    by code_simp
  have n: "json_of record_b \<notin> set [json_of record_a]" by code_simp
  from add_b win g n show ?thesis by simp
qed

text \<open>
  Claim C1, amended. A record written by \<open>addDeployRecord\<close> under a fresh, non-empty
  identifier is in the list that \<open>getLatestDeployRecords\<close> returns without project filter,
  provided the reads succeed, its \<open>deployedAt\<close> is inside the retention window at the time of
  the read, and at most \<open>limit\<close> of the merged, retained records (itself included) have a
  \<open>deployedAt\<close> that is not smaller than its own.
\<close>

theorem create_then_getLatest:
  assumes created: "addDeployRecord env uuid payload (Some c) = (Inr record, Some c')"
      and fresh: "fresh_id c uuid"
      and uuid: "uuid \<noteq> []"
      and empty: "Date_parse env [] = None"
      and src: "readSources env' c' = Inr (fromZset, fromList)"
      and window: "in_window env' (Date_now env' - THIRTY_DAYS_MS) (json_of record)"
      and rank: "jsnum_le (Fin (of_nat (rank env' None (mergeById fromZset fromList) (json_of record)))) limit"
  shows "\<exists>result. getLatestDeployRecords env' (Some c') limit None = Inr result
           \<and> json_of record \<in> set result"
proof -
  let ?J = "json_of record"
  let ?P = "\<lambda>x. j_id x = Some uuid"
  note w = addDeployRecord_Inr[OF created]
  have id: "j_id ?J = Some uuid" using w(1) by (simp add: json_of_def)
  have "r_deployedAt record \<noteq> []" using w(2) empty by auto
  then have co: "coerceRecord (JSON_stringify record) = Some ?J"
    using uuid w(1) by (simp add: JSON_stringify_def json_of_def)
  note rs = readSources_Inr[OF src]
  have inl: "?J \<in> set fromList"
    using rs(1) w(4) co by (simp add: MAX_ITEMS_def List.map_filter_simps)
  have onlyl: "\<forall>x\<in>set fromList. ?P x \<longrightarrow> x = ?J"
  proof (intro ballI impI)
    fix x assume "x \<in> set fromList" and px: "?P x"
    then obtain v where v: "v \<in> set (take MAX_ITEMS (deploy_records c'))" and cv: "coerceRecord v = Some x"
      using rs(1) by (auto simp: set_map_filter)
    from v have "v \<in> set (deploy_records c')" by (rule in_set_takeD)
    then have "v = JSON_stringify record \<or> v \<in> set (deploy_records c)"
      using w(4) by (auto dest: in_set_takeD)
    then show "x = ?J"
    proof
      assume "v = JSON_stringify record"
      with cv co show ?thesis by simp
    next
      assume "v \<in> set (deploy_records c)"
      with fresh cv px show ?thesis by (auto simp: fresh_id_def)
    qed
  qed
  have onlyz: "\<forall>x\<in>set fromZset. ?P x \<longrightarrow> x = ?J"
  proof (intro ballI impI)
    fix x assume "x \<in> set fromZset" and px: "?P x"
    then obtain k v e where kv: "string_keys c' k = Some (v, e)" and cv: "coerceRecord v = Some x"
      using rs(2) by blast
    from w(3) obtain e' where
      "string_keys c' = (string_keys c)(DEPLOY_RECORD_PREFIX @ uuid \<mapsto> (JSON_stringify record, e'))"
      by blast
    with kv have "v = JSON_stringify record \<or> string_keys c k = Some (v, e)"
      by (auto split: if_splits)
    then show "x = ?J"
    proof
      assume "v = JSON_stringify record"
      with cv co show ?thesis by simp
    next
      assume "string_keys c k = Some (v, e)"
      with fresh cv px show ?thesis by (auto simp: fresh_id_def)
    qed
  qed
  have exl: "\<exists>x\<in>set fromList. ?P x" using inl id by blast
  have "map_of (byId_of fromZset fromList) (Some uuid) = Some ?J"
  proof (cases "\<exists>x\<in>set fromZset. ?P x")
    case True
    then show ?thesis using last_filter_all_eq[OF True onlyz] by (simp add: map_of_byId)
  next
    case False
    then show ?thesis using exl last_filter_all_eq[OF exl onlyl] by (simp add: map_of_byId)
  qed
  then have mem: "?J \<in> set (mergeById fromZset fromList)" using id by (simp add: mergeById_iff)
  have "passes env' None ?J" using window by (simp add: passes_def)
  from in_result[OF src mem this rank] show ?thesis .
qed

text \<open>With limit 2 the record of \<open>payload_b\<close> is listed, behind \<open>record_a\<close>.\<close>

theorem create_then_getLatest_witness:
  "addDeployRecord sample_env ''id-b'' payload_b (Some client_a) = (Inr record_b, Some client_ab)
   \<and> fresh_id client_a ''id-b''
   \<and> readSources sample_env client_ab
         = Inr ([json_of record_a, json_of record_b], [json_of record_b, json_of record_a])
   \<and> in_window sample_env (Date_now sample_env - THIRTY_DAYS_MS) (json_of record_b)
   \<and> rank sample_env None
        (mergeById [json_of record_a, json_of record_b] [json_of record_b, json_of record_a])
        (json_of record_b) = 2
   \<and> getLatestDeployRecords sample_env (Some client_ab) (Fin 2) None
        = Inr [json_of record_a, json_of record_b]
   \<and> json_of record_b \<in> set [json_of record_a, json_of record_b]"
proof -
  have u: "''id-b'' \<noteq> []" by simp
  have e: "Date_parse sample_env [] = None" by code_simp
  have win: "in_window sample_env (Date_now sample_env - THIRTY_DAYS_MS) (json_of record_b)"
    by code_simp
  have r: "jsnum_le (Fin (of_nat (rank sample_env None
        (mergeById [json_of record_a, json_of record_b] [json_of record_b, json_of record_a])
        (json_of record_b)))) (Fin 2)"
    by (simp add: rank_b)
  have g: "getLatestDeployRecords sample_env (Some client_ab) (Fin 2) None
        = Inr [json_of record_a, json_of record_b]"
    by code_simp
  from create_then_getLatest[OF add_b fresh_b u e src_ab win r] g
  have "json_of record_b \<in> set [json_of record_a, json_of record_b]" by auto
  with add_b fresh_b src_ab win rank_b g show ?thesis by blast
qed

end
